theory Spec2Isabelle
  imports Complex_Main "HOL-Library.Multiset"
begin

section \<open>Python values used by the evaluation scripts\<close>

text \<open>
  A Python \<open>str\<close> is modelled as a \<open>string\<close>. \<open>str.strip()\<close> removes leading and
  trailing whitespace; the whitespace characters below are the ASCII characters for
  which Python's \<open>str.isspace\<close> holds (tab, line feed, vertical tab, form feed,
  carriage return, the four separators 0x1C..0x1F and the space). The whitespace
  characters beyond ASCII that Python also strips are not modelled: a \<open>string\<close> here
  is a sequence of bytes, and the texts the statements look at are ASCII.
\<close>

definition isspace :: "char \<Rightarrow> bool" where
  "isspace c = (of_char c \<in> {9, 10, 11, 12, 13, 28, 29, 30, 31, 32 :: nat})"

definition strip :: "string \<Rightarrow> string" where
  "strip s = rev (dropWhile isspace (rev (dropWhile isspace s)))"

text \<open>Truthiness of a string (\<open>if s:\<close>) and of a list (\<open>if xs:\<close>).\<close>

definition truthy :: "'a list \<Rightarrow> bool" where
  "truthy xs = (xs \<noteq> [])"

text \<open>
  Truthiness of a variable that is either \<open>None\<close> or a list: \<open>None\<close> and the empty
  list are both falsy.
\<close>

definition truthy_opt :: "'a list option \<Rightarrow> bool" where
  "truthy_opt v = (case v of None \<Rightarrow> False | Some xs \<Rightarrow> truthy xs)"

section \<open>Record sets and their comparison (find\_mismatches.py, lines 134--137)\<close>

text \<open>
  A row is the sequence of its column values; the values themselves are kept abstract
  (\<open>'v\<close>), compared by equality. The records of one query are a list of rows, or
  \<open>None\<close>.
\<close>

type_synonym 'v row = "'v list"
type_synonym 'v recset = "'v row list option"

text \<open>\<open>tuple(row)\<close>: the columns of the row, in their order.\<close>

definition tuple :: "'v row \<Rightarrow> 'v list" where
  "tuple row = row"

text \<open>\<open>set(tuple(row) for row in rec) if rec else set()\<close>\<close>

definition rec_set :: "'v recset \<Rightarrow> 'v list set" where
  "rec_set r = (case r of
      None \<Rightarrow> {}
    | Some rows \<Rightarrow> if truthy rows then set (map tuple rows) else {})"

text \<open>
  The comparison of line 137, \<open>gold_rec_set != pred_rec_set\<close>, marks a mismatch;
  the two record sets compare equal when it is false.
\<close>

definition records_differ :: "'v recset \<Rightarrow> 'v recset \<Rightarrow> bool" where
  "records_differ gold_rec pred_rec = (rec_set gold_rec \<noteq> rec_set pred_rec)"

definition records_match :: "'v recset \<Rightarrow> 'v recset \<Rightarrow> bool" where
  "records_match gold_rec pred_rec = (\<not> records_differ gold_rec pred_rec)"

text \<open>
  The comparison as the specification words it: the set of the row tuples, with an
  absent record set mapped to the empty set.
\<close>

definition spec_tuple_set :: "'v recset \<Rightarrow> 'v list set" where
  "spec_tuple_set r = (case r of None \<Rightarrow> {} | Some rows \<Rightarrow> tuple ` set rows)"

section \<open>Exceptions, files and the parts of the environment outside the sources\<close>

datatype error =
    FileNotFoundError string
  | OSError string
  | UnpicklingError string
  | AssertionError string
  | ZeroDivisionError
  | IndexError
  | TypeError
  | ValueError string
  | RuntimeError string

text \<open>
  A file is a text file (the lines \<open>readlines()\<close> returns), a pickle holding a
  \<open>(records, error_msgs)\<close> pair as the scripts dump and load it, a directory with its
  entries, or any other file (a model checkpoint).
\<close>

datatype 'v pyfile =
    Lines "string list"
  | Pickled "'v recset list" "string list"
  | Dir "string list"
  | Blob

type_synonym 'v fs = "string \<Rightarrow> 'v pyfile option"

text \<open>
  \<open>read_queries\<close> is \<open>utils.read_queries\<close>, which is not among the sources: the
  queries it returns for a path (or the exception it raises) are a parameter.
  \<open>repr_row\<close> is the text of a row inside an f-string (\<open>f"{row}"\<close>), and
  \<open>fmt_pct a b\<close> the text of \<open>f"{a / b * 100:.2f}"\<close> for \<open>b \<noteq> 0\<close>, a floating
  point computation that the model does not look into.
\<close>

record 'v env =
  fs :: "'v fs"
  read_queries :: "string \<Rightarrow> error + string list"
  repr_row :: "'v row \<Rightarrow> string"
  fmt_pct :: "int \<Rightarrow> int \<Rightarrow> string"

definition path_exists :: "'v fs \<Rightarrow> string \<Rightarrow> bool" where
  "path_exists f p = (f p \<noteq> None)"

definition readlines :: "'v fs \<Rightarrow> string \<Rightarrow> error + string list" where
  "readlines f p = (case f p of
      None \<Rightarrow> Inl (FileNotFoundError p)
    | Some (Lines ls) \<Rightarrow> Inr ls
    | Some _ \<Rightarrow> Inl (OSError p))"

definition pickle_load :: "'v fs \<Rightarrow> string \<Rightarrow> error + ('v recset list \<times> string list)" where
  "pickle_load f p = (case f p of
      None \<Rightarrow> Inl (FileNotFoundError p)
    | Some (Pickled recs msgs) \<Rightarrow> Inr (recs, msgs)
    | Some _ \<Rightarrow> Inl (UnpicklingError p))"

text \<open>\<open>os.path.join\<close> of two components (POSIX).\<close>

definition path_join :: "string \<Rightarrow> string \<Rightarrow> string" where
  "path_join a b =
     (if b \<noteq> [] \<and> hd b = CHR ''/'' then b
      else if a = [] \<or> last a = CHR ''/'' then a @ b
      else a @ ''/'' @ b)"

text \<open>\<open>str(n)\<close> for a length: the decimal digits.\<close>

fun str_nat :: "nat \<Rightarrow> string" where
  "str_nat n =
     (if n < 10 then [char_of (48 + n)] else str_nat (n div 10) @ [char_of (48 + n mod 10)])"

declare str_nat.simps [simp del]

definition newline :: string where
  "newline = [CHR 0x0A]"

text \<open>\<open>"=" * 80\<close> and \<open>"-" * 80\<close>\<close>

definition rule80 :: string where
  "rule80 = replicate 80 (CHR ''='')"

definition dash80 :: string where
  "dash80 = replicate 80 (CHR ''-'')"

text \<open>The check mark, the warning sign and the ballot cross of the messages (UTF-8).\<close>

definition check_mark :: string where
  "check_mark = [CHR 0xE2, CHR 0x9C, CHR 0x93]"

definition warn_mark :: string where
  "warn_mark = [CHR 0xE2, CHR 0x9A, CHR 0xA0]"

definition cross_mark :: string where
  "cross_mark = [CHR 0xE2, CHR 0x9C, CHR 0x97]"

section \<open>find\_mismatches.py: loading the inputs (lines 24--103)\<close>

record args =
  experiment_name :: string
  finetune :: bool
  model_type :: "string option"

definition model_type_of :: "args \<Rightarrow> string" where
  "model_type_of a = (case model_type a of
      Some m \<Rightarrow> if truthy m then m else (if finetune a then ''ft'' else ''scr'')
    | None \<Rightarrow> if finetune a then ''ft'' else ''scr'')"

definition model_sql_path :: "args \<Rightarrow> string" where
  "model_sql_path a = ''results/t5_'' @ model_type_of a @ ''_'' @ experiment_name a @ ''_dev.sql''"

definition model_record_path :: "args \<Rightarrow> string" where
  "model_record_path a = ''records/t5_'' @ model_type_of a @ ''_'' @ experiment_name a @ ''_dev.pkl''"

definition model_sql_path_alt :: "args \<Rightarrow> string" where
  "model_sql_path_alt a =
     ''model_output/t5_'' @ model_type_of a @ ''_'' @ experiment_name a @ ''_dev.sql''"

definition model_record_path_alt :: "args \<Rightarrow> string" where
  "model_record_path_alt a =
     ''model_output/t5_'' @ model_type_of a @ ''_'' @ experiment_name a @ ''_dev.pkl''"

definition nl_path :: string where
  "nl_path = path_join ''data'' ''dev.nl''"

definition gold_sql_path :: string where
  "gold_sql_path = path_join ''data'' ''dev.sql''"

definition gold_record_path :: string where
  "gold_record_path = path_join ''records'' ''ground_truth_dev.pkl''"

text \<open>The variables of \<open>main\<close> once everything is loaded.\<close>

record 'v inputs =
  nl_queries :: "string list"
  gold_sql :: "string list"
  model_sql :: "string list"
  gold_records :: "'v recset list option"
  model_records :: "'v recset list option"
  error_msgs :: "string list option"

text \<open>
  Loading prints to the console and ends in one of three ways: an exception, the
  early \<open>return\<close> of line 68 when no prediction file is found, or the loaded inputs.
  Each carries the lines printed so far.
\<close>

datatype 'v loaded =
    Load_raised "string list" error
  | Load_not_found "string list"
  | Load_ok "string list" "'v inputs"

text \<open>Lines 53--68: the predicted queries, from the primary or the fallback path.\<close>

definition load_model_sql :: "'v env \<Rightarrow> args \<Rightarrow> string list \<times> (error + string list option)" where
  "load_model_sql E a =
     (let c = [''Looking for model predictions...'',
               ''  Primary: '' @ model_sql_path a,
               ''  Fallback: '' @ model_sql_path_alt a]
      in if path_exists (fs E) (model_sql_path a) then
           (case read_queries E (model_sql_path a) of
              Inl e \<Rightarrow> (c, Inl e)
            | Inr qs \<Rightarrow>
                (c @ [check_mark @ '' Loaded SQL from: '' @ model_sql_path a], Inr (Some qs)))
         else if path_exists (fs E) (model_sql_path_alt a) then
           (case read_queries E (model_sql_path_alt a) of
              Inl e \<Rightarrow> (c, Inl e)
            | Inr qs \<Rightarrow>
                (c @ [check_mark @ '' Loaded SQL from: '' @ model_sql_path_alt a], Inr (Some qs)))
         else
           (c @ [cross_mark @ '' Model predictions not found. Tried:'',
                 ''  - '' @ model_sql_path a,
                 ''  - '' @ model_sql_path_alt a], Inr None))"

text \<open>Lines 70--82: the gold records, \<open>None\<close> when the file is missing.\<close>

definition load_gold_records ::
  "'v env \<Rightarrow> string list \<times> (error + 'v recset list option)" where
  "load_gold_records E =
     (let c = [''Looking for gold records...'', ''  Path: '' @ gold_record_path]
      in if path_exists (fs E) gold_record_path then
           (case pickle_load (fs E) gold_record_path of
              Inl e \<Rightarrow> (c, Inl e)
            | Inr (recs, _) \<Rightarrow>
                (c @ [check_mark @ '' Loaded gold records from: '' @ gold_record_path],
                 Inr (Some recs)))
         else
           (c @ [warn_mark @ '' Gold records file not found. Will compare SQL strings instead.'',
                 ''  Tried: '' @ gold_record_path @ newline], Inr None))"

text \<open>Lines 84--103: the model records and error messages, both \<open>None\<close> when missing.\<close>

definition load_model_records ::
  "'v env \<Rightarrow> args \<Rightarrow> string list \<times> (error + ('v recset list option \<times> string list option))" where
  "load_model_records E a =
     (let c = [''Looking for model records/error messages...'',
               ''  Primary: '' @ model_record_path a,
               ''  Fallback: '' @ model_record_path_alt a]
      in if path_exists (fs E) (model_record_path a) then
           (case pickle_load (fs E) (model_record_path a) of
              Inl e \<Rightarrow> (c, Inl e)
            | Inr (recs, msgs) \<Rightarrow>
                (c @ [check_mark @ '' Loaded model records/errors from: ''
                        @ model_record_path a @ newline],
                 Inr (Some recs, Some msgs)))
         else if path_exists (fs E) (model_record_path_alt a) then
           (case pickle_load (fs E) (model_record_path_alt a) of
              Inl e \<Rightarrow> (c, Inl e)
            | Inr (recs, msgs) \<Rightarrow>
                (c @ [check_mark @ '' Loaded model records/errors from: ''
                        @ model_record_path_alt a @ newline],
                 Inr (Some recs, Some msgs)))
         else
           (c @ [warn_mark @ '' Model records file not found. Will only show SQL mismatches (not SQL errors).'',
                 ''  Tried: '' @ model_record_path a,
                 ''  Tried: '' @ model_record_path_alt a @ newline], Inr (None, None)))"

definition load_inputs :: "'v env \<Rightarrow> args \<Rightarrow> 'v loaded" where
  "load_inputs E a =
     (case readlines (fs E) nl_path of
        Inl e \<Rightarrow> Load_raised [] e
      | Inr ls \<Rightarrow>
     (case read_queries E gold_sql_path of
        Inl e \<Rightarrow> Load_raised [] e
      | Inr gold \<Rightarrow>
     (case load_model_sql E a of
        (c1, Inl e) \<Rightarrow> Load_raised c1 e
      | (c1, Inr None) \<Rightarrow> Load_not_found c1
      | (c1, Inr (Some model)) \<Rightarrow>
     (case load_gold_records E of
        (c2, Inl e) \<Rightarrow> Load_raised (c1 @ c2) e
      | (c2, Inr grecs) \<Rightarrow>
     (case load_model_records E a of
        (c3, Inl e) \<Rightarrow> Load_raised (c1 @ c2 @ c3) e
      | (c3, Inr (mrecs, msgs)) \<Rightarrow>
          Load_ok (c1 @ c2 @ c3)
            \<lparr>nl_queries = map strip ls, gold_sql = gold, model_sql = model,
             gold_records = grecs, model_records = mrecs, error_msgs = msgs\<rparr>)))))"

section \<open>find\_mismatches.py: the length checks (lines 105--119)\<close>

definition verify_lengths :: "'v inputs \<Rightarrow> error option" where
  "verify_lengths L =
     (if \<not> (length (nl_queries L) = length (gold_sql L)
             \<and> length (gold_sql L) = length (model_sql L)) then
        Some (AssertionError (''Mismatch: NL='' @ str_nat (length (nl_queries L))
          @ '', Gold='' @ str_nat (length (gold_sql L))
          @ '', Model='' @ str_nat (length (model_sql L))))
      else if truthy_opt (gold_records L)
              \<and> length (case_option [] id (gold_records L)) \<noteq> length (nl_queries L) then
        Some (AssertionError (''Mismatch: Gold records=''
          @ str_nat (length (case_option [] id (gold_records L)))
          @ '', NL queries='' @ str_nat (length (nl_queries L))))
      else if truthy_opt (model_records L)
              \<and> length (case_option [] id (model_records L)) \<noteq> length (model_sql L) then
        Some (AssertionError (''Mismatch: Model records=''
          @ str_nat (length (case_option [] id (model_records L)))
          @ '', Model SQL='' @ str_nat (length (model_sql L))))
      else if truthy_opt (error_msgs L)
              \<and> length (case_option [] id (error_msgs L)) \<noteq> length (model_sql L) then
        Some (AssertionError (''Mismatch: Error messages=''
          @ str_nat (length (case_option [] id (error_msgs L)))
          @ '', Model SQL='' @ str_nat (length (model_sql L))))
      else None)"

section \<open>find\_mismatches.py: mismatches and SQL errors (lines 121--151)\<close>

text \<open>
  An entry of \<open>mismatches\<close> is \<open>(i, nl, gold_sql, pred_sql, gold_rec, pred_rec)\<close>, an
  entry of \<open>error_queries\<close> is \<open>(i, nl, gold_sql, pred_sql, error_msg)\<close>.
\<close>

type_synonym 'v mismatch = "nat \<times> string \<times> string \<times> string \<times> 'v recset \<times> 'v recset"
type_synonym error_query = "nat \<times> string \<times> string \<times> string \<times> string"

text \<open>\<open>error_msg and error_msg.strip()\<close>, as a condition (lines 130 and 150).\<close>

definition has_sql_error :: "string \<Rightarrow> bool" where
  "has_sql_error error_msg = (truthy error_msg \<and> truthy (strip error_msg))"

text \<open>
  Line 130: \<open>error_msgs and error_msgs[i] and error_msgs[i].strip()\<close>. The subscript
  raises \<open>IndexError\<close> when \<open>i\<close> is out of range.
\<close>

definition skip_sql_error :: "string list option \<Rightarrow> nat \<Rightarrow> error + bool" where
  "skip_sql_error msgs i = (case msgs of
      None \<Rightarrow> Inr False
    | Some ms \<Rightarrow>
        if \<not> truthy ms then Inr False
        else if i < length ms then Inr (has_sql_error (ms ! i))
        else Inl IndexError)"

text \<open>The loop of lines 125--138 over the enumerated, zipped sequences.\<close>

fun record_mismatches ::
  "string list option \<Rightarrow> 'v mismatch list \<Rightarrow> error + 'v mismatch list" where
  "record_mismatches msgs [] = Inr []"
| "record_mismatches msgs ((i, nl, gold_sql_str, pred_sql_str, gold_rec, pred_rec) # rest) =
     (case skip_sql_error msgs i of
        Inl e \<Rightarrow> Inl e
      | Inr skip \<Rightarrow>
          (case record_mismatches msgs rest of
             Inl e \<Rightarrow> Inl e
           | Inr ms \<Rightarrow>
               if skip then Inr ms
               else if records_differ gold_rec pred_rec
               then Inr ((i, nl, gold_sql_str, pred_sql_str, gold_rec, pred_rec) # ms)
               else Inr ms))"

text \<open>The fallback loop of lines 142--144 on the SQL strings.\<close>

definition sql_mismatches :: "string list \<Rightarrow> string list \<Rightarrow> string list \<Rightarrow> 'v mismatch list" where
  "sql_mismatches nls golds preds =
     map (\<lambda>(i, nl, gold, pred). (i, nl, gold, pred, None, None))
       (filter (\<lambda>(i, nl, gold, pred). strip gold \<noteq> strip pred)
          (enumerate 0 (zip nls (zip golds preds))))"

text \<open>\<open>gold_records and model_records\<close>: the test that selects the record comparison.\<close>

definition record_mode :: "'v inputs \<Rightarrow> bool" where
  "record_mode L = (truthy_opt (gold_records L) \<and> truthy_opt (model_records L))"

text \<open>Lines 123--144: the lines printed and the list of mismatches (or an exception).\<close>

definition find_mismatches :: "'v inputs \<Rightarrow> string list \<times> (error + 'v mismatch list)" where
  "find_mismatches L =
     (if record_mode L then
        ([], record_mismatches (error_msgs L)
               (enumerate 0 (zip (nl_queries L) (zip (gold_sql L) (zip (model_sql L)
                  (zip (case_option [] id (gold_records L))
                       (case_option [] id (model_records L))))))))
      else
        ([warn_mark @ '' Records not available. Falling back to SQL string comparison.''],
         Inr (sql_mismatches (nl_queries L) (gold_sql L) (model_sql L))))"

text \<open>Lines 147--151: the queries whose stored error message is not blank.\<close>

definition find_error_queries :: "'v inputs \<Rightarrow> error_query list" where
  "find_error_queries L =
     (if truthy_opt (error_msgs L) then
        filter (\<lambda>(i, nl, gold, pred, error_msg). has_sql_error error_msg)
          (enumerate 0 (zip (nl_queries L) (zip (gold_sql L) (zip (model_sql L)
             (case_option [] id (error_msgs L))))))
      else [])"

section \<open>find\_mismatches.py: the summary and the reports (lines 153--301)\<close>

text \<open>
  Lines 153--162. The match rate divides by \<open>len(nl_queries)\<close>: with no query at all
  the division raises \<open>ZeroDivisionError\<close> after the first two lines are printed.
\<close>

definition print_summary ::
  "'v env \<Rightarrow> 'v inputs \<Rightarrow> 'v mismatch list \<Rightarrow> error_query list \<Rightarrow> string list \<times> error option" where
  "print_summary E L ms errs =
     (let n = length (nl_queries L);
          c0 = [''Total queries: '' @ str_nat n];
          c1 = (if record_mode L
                then c0 @ [''Queries with record mismatches (different results): ''
                             @ str_nat (length ms)]
                else c0 @ [''Queries with SQL mismatches: '' @ str_nat (length ms)])
      in if n = 0 then (c1, Some ZeroDivisionError)
         else
           let c2 = (if record_mode L
                     then c1 @ [''Record match rate: ''
                                  @ fmt_pct E (int n - int (length ms)) (int n) @ ''%'']
                     else c1 @ [''SQL match rate: ''
                                  @ fmt_pct E (int n - int (length ms)) (int n) @ ''%''])
           in if truthy_opt (error_msgs L)
              then (c2 @ [''Queries with SQL errors: '' @ str_nat (length errs),
                          ''SQL error rate: '' @ fmt_pct E (int (length errs)) (int n) @ ''%''],
                    None)
              else (c2, None))"

definition mismatches_path :: "args \<Rightarrow> string" where
  "mismatches_path a = path_join ''mismatches'' (experiment_name a @ ''_mismatches.txt'')"

definition errors_path :: "args \<Rightarrow> string" where
  "errors_path a = path_join ''mismatches'' (''error_'' @ experiment_name a @ ''.txt'')"

text \<open>\<open>len(rec) if rec else 0\<close>\<close>

definition row_count :: "'v recset \<Rightarrow> nat" where
  "row_count r = (case r of None \<Rightarrow> 0 | Some rows \<Rightarrow> if truthy rows then length rows else 0)"

text \<open>
  Lines 204--211 (with the label \<open>Gold\<close>) and 212--219 (\<open>Predicted\<close>): the records of
  one side in the report file, one \<open>f.write\<close> per element.
\<close>

definition write_records :: "'v env \<Rightarrow> string \<Rightarrow> 'v recset \<Rightarrow> string list" where
  "write_records E label r =
     (newline @ label @ '' Records ('' @ str_nat (row_count r) @ '' rows):'' @ newline) #
     (case r of
        None \<Rightarrow> [''  (empty)'' @ newline]
      | Some rows \<Rightarrow>
          if truthy rows then
            map (\<lambda>row. ''  '' @ repr_row E row @ newline) (take 10 rows)
            @ (if length rows > 10
               then [''  ... ('' @ str_nat (length rows - 10) @ '' more rows)'' @ newline]
               else [])
          else [''  (empty)'' @ newline])"

text \<open>Lines 285--292 and 293--300: the same on the console, one \<open>print\<close> per element.\<close>

definition print_records :: "'v env \<Rightarrow> string \<Rightarrow> 'v recset \<Rightarrow> string list" where
  "print_records E label r =
     (newline @ label @ '' Records ('' @ str_nat (row_count r) @ '' rows):'') #
     (case r of
        None \<Rightarrow> [''  (empty)'']
      | Some rows \<Rightarrow>
          if truthy rows then
            map (\<lambda>row. ''  '' @ repr_row E row) (take 5 rows)
            @ (if length rows > 5
               then [''  ... ('' @ str_nat (length rows - 5) @ '' more rows)'']
               else [])
          else [''  (empty)''])"

text \<open>Lines 199--220: one mismatch in the report file.\<close>

definition write_mismatch :: "'v env \<Rightarrow> bool \<Rightarrow> nat \<times> 'v mismatch \<Rightarrow> string list" where
  "write_mismatch E with_records =
     (\<lambda>(idx, i, nl, gold, pred, gold_rec, pred_rec).
        [''Example '' @ str_nat idx @ '' (Index '' @ str_nat i @ ''):'' @ newline,
         ''NL Query: '' @ nl @ newline,
         newline @ ''Gold SQL:'' @ newline @ gold @ newline,
         newline @ ''Predicted SQL:'' @ newline @ pred @ newline]
        @ (if with_records
           then write_records E ''Gold'' gold_rec @ write_records E ''Predicted'' pred_rec
           else [])
        @ [newline @ dash80 @ newline @ newline])"

text \<open>Lines 176--196: the header of the report file, in either comparison mode.\<close>

definition mismatch_header :: "'v env \<Rightarrow> args \<Rightarrow> 'v inputs \<Rightarrow> 'v mismatch list \<Rightarrow> string list" where
  "mismatch_header E a L ms =
     (let n = length (nl_queries L) in
      [rule80 @ newline] @
      (if record_mode L then
         [''RECORD MISMATCHES - Experiment: '' @ experiment_name a @ newline,
          ''Model Type: '' @ model_type_of a @ newline,
          rule80 @ newline @ newline,
          ''Total queries: '' @ str_nat n @ newline,
          ''Queries with record mismatches (different results): '' @ str_nat (length ms) @ newline,
          ''Record match rate: '' @ fmt_pct E (int n - int (length ms)) (int n) @ ''%'' @ newline,
          newline @ rule80 @ newline,
          ''ALL RECORD MISMATCHES (Different fetched results)'' @ newline,
          rule80 @ newline @ newline]
       else
         [''SQL MISMATCHES - Experiment: '' @ experiment_name a @ newline,
          ''Model Type: '' @ model_type_of a @ newline,
          rule80 @ newline @ newline,
          ''Total queries: '' @ str_nat n @ newline,
          ''Queries with SQL mismatches: '' @ str_nat (length ms) @ newline,
          ''SQL match rate: '' @ fmt_pct E (int n - int (length ms)) (int n) @ ''%'' @ newline,
          newline @ rule80 @ newline,
          ''ALL SQL MISMATCHES (Predicted SQL != Gold SQL)'' @ newline,
          rule80 @ newline @ newline]))"

text \<open>Lines 175--220: everything written to the mismatch report.\<close>

definition mismatch_file :: "'v env \<Rightarrow> args \<Rightarrow> 'v inputs \<Rightarrow> 'v mismatch list \<Rightarrow> string list" where
  "mismatch_file E a L ms =
     mismatch_header E a L ms
     @ concat (map (write_mismatch E (record_mode L)) (enumerate 1 ms))"

text \<open>Lines 230--248: everything written to the error report.\<close>

definition write_error_query :: "nat \<times> error_query \<Rightarrow> string list" where
  "write_error_query =
     (\<lambda>(idx, i, nl, gold, pred, error_msg).
        [''Example '' @ str_nat idx @ '' (Index '' @ str_nat i @ ''):'' @ newline,
         ''NL Query: '' @ nl @ newline,
         newline @ ''Gold SQL:'' @ newline @ gold @ newline,
         newline @ ''Predicted SQL:'' @ newline @ pred @ newline,
         newline @ ''Error Message:'' @ newline @ error_msg @ newline,
         newline @ dash80 @ newline @ newline])"

definition error_file :: "'v env \<Rightarrow> args \<Rightarrow> 'v inputs \<Rightarrow> error_query list \<Rightarrow> string list" where
  "error_file E a L errs =
     [rule80 @ newline,
      ''SQL ERRORS - Experiment: '' @ experiment_name a @ newline,
      ''Model Type: '' @ model_type_of a @ newline,
      rule80 @ newline @ newline,
      ''Total queries: '' @ str_nat (length (nl_queries L)) @ newline,
      ''Queries with SQL errors: '' @ str_nat (length errs) @ newline,
      ''SQL error rate: ''
        @ fmt_pct E (int (length errs)) (int (length (nl_queries L))) @ ''%'' @ newline,
      newline @ rule80 @ newline,
      ''ALL QUERIES WITH SQL ERRORS (Failed to execute)'' @ newline,
      rule80 @ newline @ newline]
     @ concat (map write_error_query (enumerate 1 errs))"

text \<open>Lines 253--267: the SQL errors on the console.\<close>

definition print_error_query :: "nat \<times> error_query \<Rightarrow> string list" where
  "print_error_query =
     (\<lambda>(idx, i, nl, gold, pred, error_msg).
        [''Example '' @ str_nat idx @ '' (Index '' @ str_nat i @ ''):'',
         ''NL Query: '' @ nl,
         newline @ ''Gold SQL:'', gold,
         newline @ ''Predicted SQL:'', pred,
         newline @ ''Error Message:'', error_msg,
         newline @ dash80 @ newline])"

definition print_errors :: "error_query list \<Rightarrow> string list" where
  "print_errors errs =
     [newline @ rule80,
      ''ALL '' @ str_nat (length errs) @ '' QUERIES WITH SQL ERRORS'',
      rule80 @ newline]
     @ concat (map print_error_query (enumerate 1 errs))"

text \<open>Lines 270--301: the mismatches on the console.\<close>

definition print_mismatch :: "'v env \<Rightarrow> bool \<Rightarrow> nat \<times> 'v mismatch \<Rightarrow> string list" where
  "print_mismatch E with_records =
     (\<lambda>(idx, i, nl, gold, pred, gold_rec, pred_rec).
        [''Example '' @ str_nat idx @ '' (Index '' @ str_nat i @ ''):'',
         ''NL Query: '' @ nl,
         newline @ ''Gold SQL:'', gold,
         newline @ ''Predicted SQL:'', pred]
        @ (if with_records
           then print_records E ''Gold'' gold_rec @ print_records E ''Predicted'' pred_rec
           else [])
        @ [newline @ dash80 @ newline])"

definition print_mismatches :: "'v env \<Rightarrow> 'v inputs \<Rightarrow> 'v mismatch list \<Rightarrow> string list" where
  "print_mismatches E L ms =
     [newline @ rule80,
      (if record_mode L
       then ''ALL '' @ str_nat (length ms) @ '' RECORD MISMATCHES (Different Results)''
       else ''ALL '' @ str_nat (length ms) @ '' SQL MISMATCHES''),
      rule80 @ newline]
     @ concat (map (print_mismatch E (record_mode L)) (enumerate 1 ms))"

text \<open>\<open>error_msgs and error_queries\<close> (lines 228 and 253).\<close>

definition have_errors :: "'v inputs \<Rightarrow> error_query list \<Rightarrow> bool" where
  "have_errors L errs = (truthy_opt (error_msgs L) \<and> truthy errs)"

text \<open>
  Lines 164--301, reached once the summary is printed: the console lines, and the
  files written with the arguments of their \<open>f.write\<close> calls.
\<close>

definition report_console ::
  "'v env \<Rightarrow> args \<Rightarrow> 'v inputs \<Rightarrow> 'v mismatch list \<Rightarrow> error_query list \<Rightarrow> string list" where
  "report_console E a L ms errs =
     [newline @ ''Saving record mismatches to: '' @ mismatches_path a,
      (if record_mode L
       then check_mark @ '' Saved '' @ str_nat (length ms) @ '' record mismatches to ''
              @ mismatches_path a
       else check_mark @ '' Saved '' @ str_nat (length ms) @ '' SQL mismatches to ''
              @ mismatches_path a)]
     @ (if have_errors L errs
        then [newline @ ''Saving SQL errors to: '' @ errors_path a,
              check_mark @ '' Saved '' @ str_nat (length errs) @ '' queries with SQL errors to ''
                @ errors_path a]
        else [])
     @ (if have_errors L errs then print_errors errs else [])
     @ print_mismatches E L ms"

definition report_files ::
  "'v env \<Rightarrow> args \<Rightarrow> 'v inputs \<Rightarrow> 'v mismatch list \<Rightarrow> error_query list
     \<Rightarrow> (string \<times> string list) list" where
  "report_files E a L ms errs =
     [(mismatches_path a, mismatch_file E a L ms)]
     @ (if have_errors L errs then [(errors_path a, error_file E a L errs)] else [])"

section \<open>find\_mismatches.py: \<open>main\<close>\<close>

text \<open>
  What a run leaves behind: the lines printed, the files written (in the order of
  writing) and the exception that ended it, if any.
\<close>

record run =
  console :: "string list"
  written :: "(string \<times> string list) list"
  raised :: "error option"

definition main :: "'v env \<Rightarrow> args \<Rightarrow> run" where
  "main E a =
     (case load_inputs E a of
        Load_raised c e \<Rightarrow> \<lparr>console = c, written = [], raised = Some e\<rparr>
      | Load_not_found c \<Rightarrow> \<lparr>console = c, written = [], raised = None\<rparr>
      | Load_ok c L \<Rightarrow>
     (case verify_lengths L of
        Some e \<Rightarrow> \<lparr>console = c, written = [], raised = Some e\<rparr>
      | None \<Rightarrow>
     (case find_mismatches L of
        (c1, Inl e) \<Rightarrow> \<lparr>console = c @ c1, written = [], raised = Some e\<rparr>
      | (c1, Inr ms) \<Rightarrow>
     (case print_summary E L ms (find_error_queries L) of
        (c2, Some e) \<Rightarrow> \<lparr>console = c @ c1 @ c2, written = [], raised = Some e\<rparr>
      | (c2, None) \<Rightarrow>
          \<lparr>console = c @ c1 @ c2 @ report_console E a L ms (find_error_queries L),
           written = report_files E a L ms (find_error_queries L),
           raised = None\<rparr>))))"

section \<open>load\_data.py\<close>

definition PAD_IDX :: int where
  "PAD_IDX = 0"

definition preprocess_nl_query :: "string \<Rightarrow> string" where
  "preprocess_nl_query nl_query = ''translate to SQL: '' @ nl_query"

text \<open>
  The tokenizer belongs to an external library. \<open>encode text\<close> stands for
  \<open>tokenizer(text, max_length=512, padding=False, truncation=True,
  return_tensors="pt")["input_ids"].squeeze(0)\<close>, a one-dimensional tensor of token
  ids. A one-dimensional tensor is an \<open>int list\<close>, a two-dimensional one an
  \<open>int list list\<close>; a Python tuple of tensors is the list of its components.
\<close>

record tokenizer =
  convert_tokens_to_ids :: "string \<Rightarrow> int"
  unk_token_id :: int
  pad_token_id :: int
  eos_token_id :: int
  encode :: "string \<Rightarrow> int list"
  batch_decode :: "int list list \<Rightarrow> string list"

text \<open>Sequencing of computations that may raise.\<close>

definition ebind :: "error + 'a \<Rightarrow> ('a \<Rightarrow> error + 'b) \<Rightarrow> error + 'b" where
  "ebind m k = (case m of Inl e \<Rightarrow> Inl e | Inr x \<Rightarrow> k x)"

text \<open>
  Lines 36--44 of \<open>T5Dataset.__init__\<close>: the id of \<open><extra_id_0>\<close>, else of the first
  known \<open><extra_id_i>\<close> with \<open>i\<close> in \<open>range(1, 100)\<close>, else the padding id.
\<close>

definition find_bos_token_id :: "tokenizer \<Rightarrow> int" where
  "find_bos_token_id tok =
     (if convert_tokens_to_ids tok ''<extra_id_0>'' = unk_token_id tok then
        (case find (\<lambda>i. convert_tokens_to_ids tok (''<extra_id_'' @ str_nat i @ ''>'')
                          \<noteq> unk_token_id tok) [1..<100] of
           Some i \<Rightarrow> convert_tokens_to_ids tok (''<extra_id_'' @ str_nat i @ ''>'')
         | None \<Rightarrow> pad_token_id tok)
      else convert_tokens_to_ids tok ''<extra_id_0>'')"

definition load_lines :: "'v fs \<Rightarrow> string \<Rightarrow> error + string list" where
  "load_lines f path = ebind (readlines f path) (\<lambda>ls. Inr (map strip ls))"

record t5dataset =
  split :: string
  bos_token_id :: int
  nl_texts :: "string list"
  sql_texts :: "string list option"
  processed_nl_texts :: "string list"

text \<open>\<open>T5Dataset.__init__\<close>\<close>

definition T5Dataset :: "tokenizer \<Rightarrow> 'v fs \<Rightarrow> string \<Rightarrow> string \<Rightarrow> error + t5dataset" where
  "T5Dataset tok f data_folder spl =
     ebind (load_lines f (path_join data_folder (spl @ ''.nl''))) (\<lambda>nls.
       if spl \<noteq> ''test'' then
         ebind (load_lines f (path_join data_folder (spl @ ''.sql''))) (\<lambda>sqls.
           if length nls = length sqls then
             Inr \<lparr>split = spl, bos_token_id = find_bos_token_id tok, nl_texts = nls,
                  sql_texts = Some sqls, processed_nl_texts = map preprocess_nl_query nls\<rparr>
           else Inl (AssertionError ''NL and SQL files must have same length''))
       else
         Inr \<lparr>split = spl, bos_token_id = find_bos_token_id tok, nl_texts = nls,
              sql_texts = None, processed_nl_texts = map preprocess_nl_query nls\<rparr>)"

text \<open>\<open>T5Dataset.__len__\<close> and \<open>T5Dataset.__getitem__\<close>, for an index that is not negative.\<close>

definition dataset_len :: "t5dataset \<Rightarrow> nat" where
  "dataset_len d = length (nl_texts d)"

definition getitem :: "tokenizer \<Rightarrow> t5dataset \<Rightarrow> nat \<Rightarrow> error + int list list" where
  "getitem tok d idx =
     (if idx < length (processed_nl_texts d) then
        let encoder_ids = encode tok (processed_nl_texts d ! idx) in
        if split d = ''test'' then Inr [encoder_ids, [bos_token_id d]]
        else
          (case sql_texts d of
             None \<Rightarrow> Inl TypeError
           | Some sqls \<Rightarrow>
               if idx < length sqls then
                 let decoder_target_ids = encode tok (sqls ! idx);
                     decoder_input_ids = [bos_token_id d] @ butlast decoder_target_ids
                 in Inr [encoder_ids, decoder_input_ids, decoder_target_ids, [bos_token_id d]]
               else Inl IndexError)
      else Inl IndexError)"

text \<open>\<open>[item[k] for item in batch]\<close>\<close>

definition item_get :: "int list list \<Rightarrow> nat \<Rightarrow> error + int list" where
  "item_get item k = (if k < length item then Inr (item ! k) else Inl IndexError)"

fun collect :: "nat \<Rightarrow> int list list list \<Rightarrow> error + int list list" where
  "collect k [] = Inr []"
| "collect k (item # items) =
     ebind (item_get item k) (\<lambda>v. ebind (collect k items) (\<lambda>vs. Inr (v # vs)))"

text \<open>
  \<open>pad_sequence(seqs, batch_first=True, padding_value=v)\<close> and \<open>torch.stack\<close> on
  one-dimensional tensors; both reject an empty list.
\<close>

definition pad_sequence :: "int list list \<Rightarrow> int \<Rightarrow> error + int list list" where
  "pad_sequence seqs padding_value =
     (if seqs = [] then Inl (RuntimeError ''received an empty list of sequences'')
      else Inr (map (\<lambda>s. s @ replicate (fold max (map length seqs) 0 - length s) padding_value)
                  seqs))"

definition torch_stack :: "int list list \<Rightarrow> error + int list list" where
  "torch_stack ts =
     (if ts = [] then Inl (RuntimeError ''stack expects a non-empty TensorList'')
      else if list_all (\<lambda>t. length t = length (hd ts)) ts then Inr ts
      else Inl (RuntimeError ''stack expects each tensor to be equal size''))"

text \<open>\<open>(encoder_ids != PAD_IDX).long()\<close>\<close>

definition pad_mask :: "int list list \<Rightarrow> int list list" where
  "pad_mask ids = map (map (\<lambda>x. if x \<noteq> PAD_IDX then 1 else 0)) ids"

definition normal_collate_fn :: "int list list list \<Rightarrow> error + int list list list" where
  "normal_collate_fn batch =
     ebind (collect 0 batch) (\<lambda>encoder_ids_list.
     ebind (collect 1 batch) (\<lambda>decoder_input_ids_list.
     ebind (collect 2 batch) (\<lambda>decoder_target_ids_list.
     ebind (collect 3 batch) (\<lambda>initial_decoder_tokens_list.
     ebind (pad_sequence encoder_ids_list PAD_IDX) (\<lambda>encoder_ids.
     ebind (pad_sequence decoder_input_ids_list PAD_IDX) (\<lambda>decoder_input_ids.
     ebind (pad_sequence decoder_target_ids_list PAD_IDX) (\<lambda>decoder_target_ids.
     ebind (torch_stack initial_decoder_tokens_list) (\<lambda>initial_decoder_inputs.
       Inr [encoder_ids, pad_mask encoder_ids, decoder_input_ids, decoder_target_ids,
            initial_decoder_inputs]))))))))"

definition test_collate_fn :: "int list list list \<Rightarrow> error + int list list list" where
  "test_collate_fn batch =
     ebind (collect 0 batch) (\<lambda>encoder_ids_list.
     ebind (collect 1 batch) (\<lambda>initial_decoder_tokens_list.
     ebind (pad_sequence encoder_ids_list PAD_IDX) (\<lambda>encoder_ids.
     ebind (torch_stack initial_decoder_tokens_list) (\<lambda>initial_decoder_inputs.
       Inr [encoder_ids, pad_mask encoder_ids, initial_decoder_inputs]))))"

text \<open>
  A \<open>DataLoader\<close>: the dataset, the batch size, whether it shuffles, and which of the
  two collate functions it applies.
\<close>

datatype collate = Normal_collate | Test_collate

record dataloader =
  dataset :: t5dataset
  batch_size :: nat
  shuffle :: bool
  collate_fn :: collate

text \<open>
  \<open>get_dataloader\<close>. The batch size is a natural number here; the \<open>DataLoader\<close>
  constructor rejects one that is not positive.
\<close>

definition get_dataloader :: "tokenizer \<Rightarrow> 'v fs \<Rightarrow> nat \<Rightarrow> string \<Rightarrow> error + dataloader" where
  "get_dataloader tok f bs spl =
     ebind (T5Dataset tok f ''data'' spl) (\<lambda>dset.
       if bs = 0 then Inl (ValueError ''batch_size should be a positive integer value'')
       else Inr \<lparr>dataset = dset, batch_size = bs, shuffle = (spl = ''train''),
                 collate_fn = (if spl \<noteq> ''test'' then Normal_collate else Test_collate)\<rparr>)"

text \<open>Consecutive groups of \<open>n\<close> indices, the last one possibly shorter.\<close>

fun chunks :: "nat \<Rightarrow> 'a list \<Rightarrow> 'a list list" where
  "chunks n [] = []"
| "chunks n (x # xs) =
     (if n = 0 then [] else take n (x # xs) # chunks n (drop (n - 1) xs))"

fun getitems :: "tokenizer \<Rightarrow> t5dataset \<Rightarrow> nat list \<Rightarrow> error + int list list list" where
  "getitems tok d [] = Inr []"
| "getitems tok d (i # is) =
     ebind (getitem tok d i) (\<lambda>item. ebind (getitems tok d is) (\<lambda>items. Inr (item # items)))"

definition apply_collate :: "collate \<Rightarrow> int list list list \<Rightarrow> error + int list list list" where
  "apply_collate c batch =
     (case c of Normal_collate \<Rightarrow> normal_collate_fn batch | Test_collate \<Rightarrow> test_collate_fn batch)"

text \<open>
  Iterating over the loader: what each step of \<open>for batch in loader\<close> yields, a batch
  or the exception raised while building it. \<open>perm n\<close> is the random order of the
  \<open>n\<close> indices that a shuffling loader draws.
\<close>

definition loader_batches ::
  "tokenizer \<Rightarrow> (nat \<Rightarrow> nat list) \<Rightarrow> dataloader \<Rightarrow> (error + int list list list) list" where
  "loader_batches tok perm dl =
     (let n = dataset_len (dataset dl);
          order = (if shuffle dl then perm n else [0..<n])
      in map (\<lambda>idxs. ebind (getitems tok (dataset dl) idxs) (apply_collate (collate_fn dl)))
           (chunks (batch_size dl) order))"

section \<open>evaluate\_test2.py\<close>

text \<open>
  The model, its generation, and the helpers of \<open>utils\<close> (which is not among the
  sources) are parameters: \<open>generate m input_ids attention_mask start pad eos\<close> is
  \<open>model.generate\<close> with \<open>max_length=512\<close> and \<open>num_beams=2\<close>;
  \<open>compute_records\<close> executes a list of queries and returns their records and error
  messages; \<open>save_queries_and_records\<close> acts on the files; \<open>compute_metrics\<close> returns
  the three scores and the error messages of the predicted queries.
\<close>

record ('v, 'm) externals =
  tok :: tokenizer
  perm :: "nat \<Rightarrow> nat list"
  load_model_from_checkpoint :: "bool \<Rightarrow> string \<Rightarrow> error + 'm"
  generate :: "'m \<Rightarrow> int list list \<Rightarrow> int list list \<Rightarrow> int \<Rightarrow> int \<Rightarrow> int \<Rightarrow> int list list"
  compute_records :: "string list \<Rightarrow> 'v recset list \<times> string list"
  save_queries_and_records :: "string list \<Rightarrow> string \<Rightarrow> string \<Rightarrow> 'v fs \<Rightarrow> 'v fs"
  compute_metrics ::
    "'v fs \<Rightarrow> string \<Rightarrow> string \<Rightarrow> string \<Rightarrow> string \<Rightarrow> rat \<times> rat \<times> rat \<times> string list"

text \<open>
  Line 44: \<open>encoder_input, encoder_mask, initial_decoder_inputs = batch\<close> needs a
  batch of exactly three components.
\<close>

definition unpack3 :: "'a list \<Rightarrow> error + ('a \<times> 'a \<times> 'a)" where
  "unpack3 batch =
     (case batch of
        [a, b, c] \<Rightarrow> Inr (a, b, c)
      | _ \<Rightarrow>
          if length batch > 3 then Inl (ValueError ''too many values to unpack (expected 3)'')
          else Inl (ValueError (''not enough values to unpack (expected 3, got ''
                 @ str_nat (length batch) @ '')'')))"

text \<open>Lines 43--60: the loop over the batches, extending \<open>all_generated_sql\<close>.\<close>

fun inference_loop ::
  "('v, 'm) externals \<Rightarrow> 'm \<Rightarrow> int \<Rightarrow> (error + int list list list) list \<Rightarrow> string list
     \<Rightarrow> error + string list" where
  "inference_loop X m start [] all_generated_sql = Inr all_generated_sql"
| "inference_loop X m start (b # bs) all_generated_sql =
     ebind b (\<lambda>batch.
     ebind (unpack3 batch) (\<lambda>(encoder_input, encoder_mask, initial_decoder_inputs).
       inference_loop X m start bs
         (all_generated_sql
          @ batch_decode (tok X)
              (generate X m encoder_input encoder_mask start
                 (pad_token_id (tok X)) (eos_token_id (tok X))))))"

definition decoder_start_token_id :: "tokenizer \<Rightarrow> int" where
  "decoder_start_token_id t =
     (if convert_tokens_to_ids t ''<extra_id_0>'' = unk_token_id t then pad_token_id t
      else convert_tokens_to_ids t ''<extra_id_0>'')"

text \<open>\<open>test2_inference\<close>: the generated queries and the files after saving them.\<close>

definition test2_inference ::
  "('v, 'm) externals \<Rightarrow> 'm \<Rightarrow> dataloader \<Rightarrow> string \<Rightarrow> string \<Rightarrow> 'v fs
     \<Rightarrow> error + (string list \<times> 'v fs)" where
  "test2_inference X m test2_loader sql_path record_path f =
     ebind (inference_loop X m (decoder_start_token_id (tok X))
              (loader_batches (tok X) (perm X) test2_loader) [])
       (\<lambda>all_generated_sql.
          Inr (all_generated_sql,
               save_queries_and_records X all_generated_sql sql_path record_path f))"

text \<open>\<open>os.path.isdir\<close> and \<open>os.listdir\<close>\<close>

definition isdir :: "'v fs \<Rightarrow> string \<Rightarrow> bool" where
  "isdir f p = (case f p of Some (Dir _) \<Rightarrow> True | _ \<Rightarrow> False)"

definition listdir :: "'v fs \<Rightarrow> string \<Rightarrow> error + string list" where
  "listdir f p = (case f p of
      None \<Rightarrow> Inl (FileNotFoundError p)
    | Some (Dir entries) \<Rightarrow> Inr entries
    | Some _ \<Rightarrow> Inl (OSError p))"

text \<open>\<open>find_experiments\<close>: the experiments with a \<open>best_model.pt\<close>, fine-tuned ones first.\<close>

definition experiments_of_type :: "'v fs \<Rightarrow> string \<Rightarrow> string \<Rightarrow> error + (string \<times> string) list" where
  "experiments_of_type f base_dir mt =
     (if path_exists f (path_join base_dir mt) then
        ebind (listdir f (path_join base_dir mt)) (\<lambda>names.
          Inr (map (\<lambda>exp_name. (mt, exp_name))
                 (filter (\<lambda>exp_name.
                      isdir f (path_join (path_join base_dir mt) exp_name)
                      \<and> path_exists f
                          (path_join (path_join (path_join base_dir mt) exp_name)
                             ''best_model.pt''))
                    names)))
      else Inr [])"

definition find_experiments :: "'v fs \<Rightarrow> string \<Rightarrow> error + (string \<times> string) list" where
  "find_experiments f base_dir =
     (if \<not> path_exists f base_dir then Inr []
      else
        ebind (experiments_of_type f base_dir ''ft_experiments'') (\<lambda>fts.
        ebind (experiments_of_type f base_dir ''scr_experiments'') (\<lambda>scrs.
          Inr (fts @ scrs))))"

record eval_args =
  experiments :: "string list option"
  test_batch_size :: nat
  checkpoint_dir :: string

text \<open>Lines 93--101: the experiments named on the command line that have a checkpoint.\<close>

definition named_experiments :: "'v fs \<Rightarrow> string \<Rightarrow> string list \<Rightarrow> (string \<times> string) list" where
  "named_experiments f ckpt names =
     concat (map (\<lambda>exp_name.
        if path_exists f
             (path_join (path_join (path_join ckpt ''ft_experiments'') exp_name) ''best_model.pt'')
        then [(''ft_experiments'', exp_name)]
        else if path_exists f
             (path_join (path_join (path_join ckpt ''scr_experiments'') exp_name) ''best_model.pt'')
        then [(''scr_experiments'', exp_name)]
        else []) names)"

definition select_experiments :: "'v fs \<Rightarrow> eval_args \<Rightarrow> error + (string \<times> string) list" where
  "select_experiments f a =
     (if truthy_opt (experiments a)
      then Inr (named_experiments f (checkpoint_dir a) (case_option [] id (experiments a)))
      else find_experiments f (checkpoint_dir a))"

definition gt_sql_path :: string where
  "gt_sql_path = ''data/test2.sql''"

definition gt_record_path :: string where
  "gt_record_path = ''records/ground_truth_test2.pkl''"

text \<open>
  What a run of the evaluation does to the gold side and when it starts on an
  experiment, in the order of the events.
\<close>

datatype event =
    Executed_gold "string list"
  | Wrote_cache string
  | Evaluating string string

text \<open>
  Lines 119--131: the ground truth records are created when the file does not exist.
  The result is the files afterwards and the events of the block.
\<close>

definition create_ground_truth ::
  "('v, 'm) externals \<Rightarrow> 'v fs \<Rightarrow> error + ('v fs \<times> event list)" where
  "create_ground_truth X f =
     (if \<not> path_exists f gt_record_path then
        ebind (readlines f gt_sql_path) (\<lambda>ls.
          let gt_sql_queries = map strip ls;
              (records, msgs) = compute_records X gt_sql_queries
          in Inr (f(gt_record_path \<mapsto> Pickled records msgs),
                  [Executed_gold gt_sql_queries, Wrote_cache gt_record_path]))
      else Inr (f, []))"

text \<open>Line 169: the error rate of one experiment.\<close>

definition error_rate :: "string list \<Rightarrow> rat" where
  "error_rate msgs =
     (if truthy msgs
      then of_nat (sum_list (map (\<lambda>msg. 1) (filter (\<lambda>msg. msg \<noteq> []) msgs)))
           / of_nat (length msgs)
      else 0)"

text \<open>\<open>'ft' in model_type\<close>\<close>

fun contains :: "string \<Rightarrow> string \<Rightarrow> bool" where
  "contains sub [] = (sub = [])"
| "contains sub (c # cs) = (take (length sub) (c # cs) = sub \<or> contains sub cs)"

record eval_result =
  res_experiment :: string
  res_model_type :: string
  res_sql_em :: rat
  res_record_em :: rat
  res_record_f1 :: rat
  res_error_rate :: rat

record 'v outcome =
  files :: "'v fs"
  events :: "event list"
  results :: "eval_result list"
  failure :: "error option"

text \<open>Lines 134--184: the loop over the experiments; an exception ends the run.\<close>

fun evaluate_all ::
  "('v, 'm) externals \<Rightarrow> eval_args \<Rightarrow> dataloader \<Rightarrow> (string \<times> string) list
     \<Rightarrow> 'v fs \<Rightarrow> event list \<Rightarrow> eval_result list \<Rightarrow> 'v outcome" where
  "evaluate_all X a test2_loader [] f tr rs =
     \<lparr>files = f, events = tr, results = rs, failure = None\<rparr>"
| "evaluate_all X a test2_loader ((mt, exp_name) # rest) f tr rs =
     (let model_type_short = (if contains ''ft'' mt then ''ft'' else ''scr'');
          sql_path = ''results/t5_'' @ model_type_short @ ''_'' @ exp_name @ ''_test2.sql'';
          record_path = ''records/t5_'' @ model_type_short @ ''_'' @ exp_name @ ''_test2.pkl''
      in case load_model_from_checkpoint X (contains ''ft'' mt)
                (path_join (path_join (checkpoint_dir a) mt) exp_name) of
           Inl e \<Rightarrow>
             \<lparr>files = f, events = tr @ [Evaluating mt exp_name], results = rs, failure = Some e\<rparr>
         | Inr m \<Rightarrow>
             (case test2_inference X m test2_loader sql_path record_path f of
                Inl e \<Rightarrow>
                  \<lparr>files = f, events = tr @ [Evaluating mt exp_name], results = rs,
                   failure = Some e\<rparr>
              | Inr (all_generated_sql, f') \<Rightarrow>
                  (case compute_metrics X f' gt_sql_path sql_path gt_record_path record_path of
                     (sql_em, record_em, record_f1, msgs) \<Rightarrow>
                       evaluate_all X a test2_loader rest f' (tr @ [Evaluating mt exp_name])
                         (rs @ [\<lparr>res_experiment = exp_name, res_model_type = model_type_short,
                                 res_sql_em = sql_em, res_record_em = record_em,
                                 res_record_f1 = record_f1,
                                 res_error_rate = error_rate msgs\<rparr>]))))"

text \<open>\<open>main\<close> of evaluate\_test2.py.\<close>

definition evaluate_main :: "('v, 'm) externals \<Rightarrow> eval_args \<Rightarrow> 'v fs \<Rightarrow> 'v outcome" where
  "evaluate_main X a f =
     (case get_dataloader (tok X) f (test_batch_size a) ''test2'' of
        Inl e \<Rightarrow> \<lparr>files = f, events = [], results = [], failure = Some e\<rparr>
      | Inr test2_loader \<Rightarrow>
     (case select_experiments f a of
        Inl e \<Rightarrow> \<lparr>files = f, events = [], results = [], failure = Some e\<rparr>
      | Inr exps \<Rightarrow>
          if \<not> truthy exps then \<lparr>files = f, events = [], results = [], failure = None\<rparr>
          else
            (case create_ground_truth X f of
               Inl e \<Rightarrow> \<lparr>files = f, events = [], results = [], failure = Some e\<rparr>
             | Inr (f', tr) \<Rightarrow> evaluate_all X a test2_loader exps f' tr [])))"

section \<open>Notions used in the statements\<close>

text \<open>
  A dataset as \<open>T5Dataset\<close> builds it for a split other than \<open>test\<close>: the SQL
  texts are there, as many as the questions.
\<close>

definition labelled :: "t5dataset \<Rightarrow> bool" where
  "labelled d =
     (split d \<noteq> ''test''
      \<and> (case sql_texts d of None \<Rightarrow> False | Some sqls \<Rightarrow> length sqls = length (nl_texts d))
      \<and> length (processed_nl_texts d) = length (nl_texts d))"

text \<open>A step of the iteration over a loader that yields a batch of five components.\<close>

definition five_tuple :: "error + int list list list \<Rightarrow> bool" where
  "five_tuple b = (case b of Inl e \<Rightarrow> False | Inr t \<Rightarrow> length t = 5)"

text \<open>The events that mark the start of an experiment's evaluation.\<close>

definition is_evaluating :: "event \<Rightarrow> bool" where
  "is_evaluating e = (case e of Evaluating mt exp_name \<Rightarrow> True | _ \<Rightarrow> False)"

section \<open>Concrete inputs for the examples\<close>

text \<open>
  A tokenizer that knows \<open><extra_id_0>\<close>, a \<open>data\<close> folder with a two-line
  \<open>test2\<close> split, and stand-ins for the external functions.
\<close>

definition demo_tokenizer :: tokenizer where
  "demo_tokenizer =
     \<lparr>convert_tokens_to_ids = (\<lambda>t. if t = ''<extra_id_0>'' then 32099 else 2),
      unk_token_id = 2, pad_token_id = 0, eos_token_id = 1,
      encode = (\<lambda>s. map (\<lambda>c. int (of_char c)) s @ [1]),
      batch_decode = map (\<lambda>ids. ''SELECT 1'')\<rparr>"

definition demo_test2_fs :: "int fs" where
  "demo_test2_fs =
     (\<lambda>p. if p = ''data/test2.nl'' then Some (Lines [''ab'' @ newline, ''c'' @ newline])
          else if p = ''data/test2.sql'' then Some (Lines [''x'' @ newline, ''yz'' @ newline])
          else None)"

definition demo_externals :: "(int, unit) externals" where
  "demo_externals =
     \<lparr>tok = demo_tokenizer, perm = (\<lambda>n. [0..<n]),
      load_model_from_checkpoint = (\<lambda>ft dir. Inr ()),
      generate = (\<lambda>m ids mask start pad eos. map (\<lambda>row. [start, eos]) ids),
      compute_records = (\<lambda>qs. (map (\<lambda>q. Some [[1]]) qs, map (\<lambda>q. []) qs)),
      save_queries_and_records = (\<lambda>qs sql_path record_path f. f),
      compute_metrics = (\<lambda>f gs ms gr mr. (1, 1, 1, []))\<rparr>"

definition demo_test2_loader :: dataloader where
  "demo_test2_loader =
     \<lparr>dataset = \<lparr>split = ''test2'', bos_token_id = 32099, nl_texts = [''ab'', ''c''],
                  sql_texts = Some [''x'', ''yz''],
                  processed_nl_texts = [''translate to SQL: ab'', ''translate to SQL: c'']\<rparr>,
      batch_size = 16, shuffle = False, collate_fn = Normal_collate\<rparr>"

text \<open>
  Arguments naming one experiment, its checkpoint, and the same files with a ground
  truth cache already in place.
\<close>

definition demo_eval_args :: eval_args where
  "demo_eval_args = \<lparr>experiments = Some [''base''], test_batch_size = 16,
                      checkpoint_dir = ''checkpoints''\<rparr>"

definition demo_ckpt_fs :: "int fs" where
  "demo_ckpt_fs = demo_test2_fs(''checkpoints/ft_experiments/base/best_model.pt'' \<mapsto> Blob)"

definition demo_cached_fs :: "int fs" where
  "demo_cached_fs = demo_ckpt_fs(''records/ground_truth_test2.pkl'' \<mapsto> Pickled [Some [[7]], None] ['''', ''no such table''])"

text \<open>Arguments naming no experiment, for a run that finds no checkpoint.\<close>

definition demo_noexp_args :: eval_args where
  "demo_noexp_args = \<lparr>experiments = None, test_batch_size = 16,
                       checkpoint_dir = ''checkpoints''\<rparr>"

text \<open>
  Loaded inputs of find\_mismatches.py with four queries: a match up to row order, a
  record mismatch, a query that failed, and one whose error message is blank.
\<close>

definition demo_inputs :: "int inputs" where
  "demo_inputs =
     \<lparr>nl_queries = [''q0'', ''q1'', ''q2'', ''q3''],
      gold_sql = [''SELECT a'', ''SELECT b'', ''SELECT c'', ''SELECT d''],
      model_sql = [''SELECT a'', ''SELECT x'', ''SELECT nope'', ''SELECT d d''],
      gold_records = Some [Some [[1], [2]], Some [[3]], Some [[4]], Some [[5]]],
      model_records = Some [Some [[2], [1]], Some [[9]], Some [], Some [[6]]],
      error_msgs = Some ['''', '''', ''no such column: nope'', ''  '']\<rparr>"

text \<open>
  A development set of two questions with the predictions of experiment \<open>exp1\<close>, and
  variants of it: one prediction only, a gold record file holding an empty list, and
  a gold record file holding one record set for the two questions.
\<close>

definition demo_args :: args where
  "demo_args = \<lparr>experiment_name = ''exp1'', finetune = True, model_type = None\<rparr>"

definition demo_queries :: "string \<Rightarrow> error + string list" where
  "demo_queries p =
     (if p = ''data/dev.sql'' then Inr [''SELECT a'', ''SELECT b'']
      else if p = ''results/t5_ft_exp1_dev.sql'' then Inr [''SELECT a '', ''SELECT x'']
      else Inl (FileNotFoundError p))"

definition demo_short_queries :: "string \<Rightarrow> error + string list" where
  "demo_short_queries p =
     (if p = ''data/dev.sql'' then Inr [''SELECT a'', ''SELECT b'']
      else if p = ''results/t5_ft_exp1_dev.sql'' then Inr [''SELECT a '']
      else Inl (FileNotFoundError p))"

definition demo_dev_fs :: "int fs" where
  "demo_dev_fs =
     (\<lambda>p. if p = ''data/dev.nl'' then Some (Lines [''q0'' @ newline, ''q1'' @ newline])
          else if p = ''results/t5_ft_exp1_dev.sql''
          then Some (Lines [''SELECT a '' @ newline, ''SELECT x'' @ newline])
          else None)"

definition demo_env :: "int env" where
  "demo_env = \<lparr>fs = demo_dev_fs, read_queries = demo_queries,
                repr_row = (\<lambda>row. ''(row)''), fmt_pct = (\<lambda>a b. ''pct'')\<rparr>"

definition demo_short_env :: "int env" where
  "demo_short_env = demo_env\<lparr>read_queries := demo_short_queries\<rparr>"

definition demo_emptygold_env :: "int env" where
  "demo_emptygold_env =
     demo_env\<lparr>fs := demo_dev_fs(''records/ground_truth_dev.pkl'' \<mapsto> Pickled [] [])\<rparr>"

definition demo_badrec_env :: "int env" where
  "demo_badrec_env =
     demo_env\<lparr>fs := demo_dev_fs(''records/ground_truth_dev.pkl'' \<mapsto> Pickled [Some [[1]]] [[]])\<rparr>"

text \<open>
  The same development set with gold and model records: the second gold query returns
  twelve rows, more than either preview shows.
\<close>

definition demo_rows12 :: "int row list" where
  "demo_rows12 = [[1], [2], [3], [4], [5], [6], [7], [8], [9], [10], [11], [12]]"

definition demo_records_env :: "int env" where
  "demo_records_env =
     demo_env\<lparr>fs := demo_dev_fs
       (''records/ground_truth_dev.pkl'' \<mapsto> Pickled [Some [[1], [2]], Some demo_rows12] [[], []],
        ''records/t5_ft_exp1_dev.pkl''
          \<mapsto> Pickled [Some [[2], [1]], Some [[1], [2], [3], [4], [5], [6]]] [[], []])\<rparr>"

definition demo_records_inputs :: "int inputs" where
  "demo_records_inputs =
     \<lparr>nl_queries = [''q0'', ''q1''], gold_sql = [''SELECT a'', ''SELECT b''],
      model_sql = [''SELECT a '', ''SELECT x''],
      gold_records = Some [Some [[1], [2]], Some demo_rows12],
      model_records = Some [Some [[2], [1]], Some [[1], [2], [3], [4], [5], [6]]],
      error_msgs = Some [[], []]\<rparr>"

text \<open>An empty development set with an empty prediction file and no records.\<close>

definition demo_empty_env :: "int env" where
  "demo_empty_env =
     \<lparr>fs = (\<lambda>p. if p = ''data/dev.nl'' \<or> p = ''results/t5_ft_exp1_dev.sql''
                then Some (Lines []) else None),
      read_queries = (\<lambda>p. Inr []),
      repr_row = (\<lambda>row. ''(row)''), fmt_pct = (\<lambda>a b. ''pct'')\<rparr>"

section \<open>The record comparator\<close>

lemma rec_set_Some: "rec_set (Some rows) = set rows"
  by (cases rows) (simp_all add: rec_set_def truthy_def tuple_def)

lemma rec_set_None: "rec_set None = {}"
  by (simp add: rec_set_def)

lemma rec_set_spec: "rec_set r = spec_tuple_set r"
proof (cases r)
  case None
  then show ?thesis by (simp add: rec_set_None spec_tuple_set_def)
next
  case (Some rows)
  have "tuple ` set rows = set rows"
    by (simp add: tuple_def [abs_def])
  with Some show ?thesis
    by (simp add: rec_set_Some spec_tuple_set_def)
qed

text \<open>
  Claim C1. The comparator reports two record sets equal exactly when their sets of
  row tuples are equal, an absent or empty record set counting as the empty set.
\<close>

theorem records_match_iff_tuple_sets:
  "records_match A B = (spec_tuple_set A = spec_tuple_set B)"
  by (simp add: records_match_def records_differ_def rec_set_spec)

text \<open>
  Claim C6. Permuting the rows of a record set, or duplicating some of them, does not
  change the result of the comparison with any other record set.
\<close>

theorem records_match_perm_dup:
  assumes "mset A' = mset A \<or> set A' = set A"
  shows "records_match (Some A') B = records_match (Some A) B"
proof -
  from assms have "set A' = set A"
    by (auto dest: mset_eq_setD)
  then show ?thesis
    by (simp add: records_match_def records_differ_def rec_set_Some)
qed

theorem records_match_perm_dup_witness:
  "mset [[1], [2 :: int]] = mset [[2], [1]]
   \<and> records_match (Some [[1], [2 :: int]]) (Some [[2], [1]])"
proof -
  have h: "mset [[1], [2 :: int]] = mset [[2], [1]] \<or> set [[1], [2 :: int]] = set [[2], [1]]"
    by simp
  have "records_match (Some [[2], [1 :: int]]) (Some [[2], [1]])"
    by (simp add: records_match_def records_differ_def)
  with records_match_perm_dup [OF h, of "Some [[2], [1]]"] show ?thesis
    by simp
qed

section \<open>Error messages and the error rate\<close>

lemma strip_Nil: "strip [] = []"
  by (simp add: strip_def)

lemma has_sql_error_iff: "has_sql_error m = (strip m \<noteq> [])"
  by (cases m) (auto simp: has_sql_error_def truthy_def strip_Nil)

lemma strip_blank: "list_all isspace m \<Longrightarrow> strip m = []"
  by (auto simp: strip_def list_all_iff dest: set_dropWhileD)

lemma count_ones: "sum_list (map (\<lambda>x. Suc 0) xs) = length xs"
  by (induction xs) simp_all

text \<open>Line 169 of evaluate\_test2.py in closed form.\<close>

lemma error_rate_closed_form:
  "error_rate msgs =
     (if msgs = [] then 0
      else of_nat (card {i. i < length msgs \<and> msgs ! i \<noteq> ''''}) / of_nat (length msgs))"
  by (simp add: error_rate_def truthy_def count_ones length_filter_conv_card)


section \<open>The test2 loader and \<open>test2_inference\<close>\<close>

lemma ebind_Inr: "ebind (Inr x) k = k x"
  by (simp add: ebind_def)

lemma ebind_Inl: "ebind (Inl e) k = Inl e"
  by (simp add: ebind_def)

lemma ebind_eq_Inr: "ebind m k = Inr y \<Longrightarrow> \<exists>x. m = Inr x \<and> k x = Inr y"
  by (cases m) (simp_all add: ebind_def)

lemma T5Dataset_labelled:
  assumes "T5Dataset tk f folder spl = Inr d" and "spl \<noteq> ''test''"
  shows "labelled d"
  using assms
  by (auto simp: T5Dataset_def labelled_def dest!: ebind_eq_Inr split: if_splits)

lemma get_dataloader_test2:
  assumes "get_dataloader tk f bs ''test2'' = Inr dl"
  shows "collate_fn dl = Normal_collate \<and> \<not> shuffle dl \<and> 0 < batch_size dl
         \<and> labelled (dataset dl)"
proof -
  from assms obtain d where d: "T5Dataset tk f ''data'' ''test2'' = Inr d"
    and r: "(if bs = 0 then Inl (ValueError ''batch_size should be a positive integer value'')
       else Inr \<lparr>dataset = d, batch_size = bs, shuffle = (''test2'' = ''train''),
                 collate_fn = (if ''test2'' \<noteq> ''test'' then Normal_collate else Test_collate)\<rparr>) = Inr dl"
    unfolding get_dataloader_def by (blast dest: ebind_eq_Inr)
  from d have "labelled d" by (rule T5Dataset_labelled) simp
  with r show ?thesis by (auto split: if_splits)
qed

lemma getitem_labelled:
  assumes "labelled d" and "i < dataset_len d"
  shows "\<exists>item. getitem tk d i = Inr item \<and> length item = 4 \<and> item ! 3 = [bos_token_id d]"
  using assms
  by (auto simp: labelled_def getitem_def dataset_len_def Let_def split: option.splits)

lemma getitems_labelled:
  assumes "labelled d" and "\<forall>i\<in>set idxs. i < dataset_len d"
  shows "\<exists>items. getitems tk d idxs = Inr items \<and> length items = length idxs
           \<and> (\<forall>item\<in>set items. length item = 4 \<and> item ! 3 = [bos_token_id d])"
  using assms(2)
proof (induction idxs)
  case Nil
  then show ?case by simp
next
  case (Cons i idxs)
  from Cons.prems have "i < dataset_len d" by simp
  with assms(1) obtain item where it: "getitem tk d i = Inr item" "length item = 4"
      "item ! 3 = [bos_token_id d]"
    using getitem_labelled by blast
  from Cons obtain items where its: "getitems tk d idxs = Inr items" "length items = length idxs"
      "\<forall>item\<in>set items. length item = 4 \<and> item ! 3 = [bos_token_id d]"
    by auto
  show ?case
    using it its by (simp add: ebind_Inr)
qed

lemma collect_ok:
  "\<forall>item\<in>set items. k < length item \<Longrightarrow> collect k items = Inr (map (\<lambda>it. it ! k) items)"
  by (induction items) (simp_all add: item_get_def ebind_Inr)

lemma normal_collate_ok:
  assumes "items \<noteq> []" and "\<forall>item\<in>set items. length item = 4 \<and> item ! 3 = [b]"
  shows "\<exists>t. normal_collate_fn items = Inr t \<and> length t = 5"
proof -
  have c: "collect k items = Inr (map (\<lambda>it. it ! k) items)" if "k < 4" for k
    using assms(2) that by (intro collect_ok) auto
  have st: "torch_stack (map (\<lambda>it. it ! 3) items) = Inr (map (\<lambda>it. it ! 3) items)"
    using assms by (simp add: torch_stack_def list_all_iff hd_map)
  show ?thesis
    using assms(1) by (simp add: normal_collate_fn_def c ebind_Inr pad_sequence_def st)
qed

lemma chunks_nonempty:
  "0 < n \<Longrightarrow> c \<in> set (chunks n xs) \<Longrightarrow> c \<noteq> [] \<and> set c \<subseteq> set xs"
proof (induction n xs rule: chunks.induct)
  case (1 n)
  then show ?case by simp
next
  case (2 n x xs)
  from "2.prems" have "c = take n (x # xs) \<or> c \<in> set (chunks n (drop (n - 1) xs))"
    by simp
  then show ?case
  proof
    assume "c = take n (x # xs)"
    with "2.prems"(1) show ?thesis
      by (cases n) (auto dest: in_set_takeD)
  next
    assume "c \<in> set (chunks n (drop (n - 1) xs))"
    with 2 have "c \<noteq> [] \<and> set c \<subseteq> set (drop (n - 1) xs)" by simp
    then show ?thesis
      by (auto dest: in_set_dropD)
  qed
qed

lemma chunks_exists: "0 < n \<Longrightarrow> xs \<noteq> [] \<Longrightarrow> chunks n xs \<noteq> []"
  by (cases xs) simp_all

lemma unpack3_five: "length t = 5 \<Longrightarrow> unpack3 t = Inl (ValueError ''too many values to unpack (expected 3)'')"
  by (auto simp: unpack3_def split: list.splits)

lemma five_tuple_unpack:
  "five_tuple b \<Longrightarrow> ebind b unpack3 = Inl (ValueError ''too many values to unpack (expected 3)'')"
  by (cases b) (simp_all add: five_tuple_def ebind_Inr unpack3_five)

lemma loader_batches_test2:
  assumes "get_dataloader tk f bs ''test2'' = Inr dl"
  shows "list_all five_tuple (loader_batches tk pm dl)"
proof -
  from get_dataloader_test2 [OF assms]
  have n: "collate_fn dl = Normal_collate" and s: "\<not> shuffle dl" and b: "0 < batch_size dl"
    and l: "labelled (dataset dl)" by simp_all
  have "five_tuple (ebind (getitems tk (dataset dl) idxs) (apply_collate (collate_fn dl)))"
    if "idxs \<in> set (chunks (batch_size dl) [0..<dataset_len (dataset dl)])" for idxs
  proof -
    from chunks_nonempty [OF b that]
    have ne: "idxs \<noteq> []" and sub: "\<forall>i\<in>set idxs. i < dataset_len (dataset dl)" by auto
    from getitems_labelled [OF l sub, of tk] obtain items where
      its: "getitems tk (dataset dl) idxs = Inr items" "length items = length idxs"
        "\<forall>item\<in>set items. length item = 4 \<and> item ! 3 = [bos_token_id (dataset dl)]"
      by blast
    from ne its(2) have "items \<noteq> []" by auto
    from normal_collate_ok [OF this its(3)] obtain t where
      "normal_collate_fn items = Inr t" "length t = 5" by blast
    then show ?thesis
      by (simp add: its(1) ebind_Inr apply_collate_def n five_tuple_def)
  qed
  then show ?thesis
    using s by (simp add: loader_batches_def list_all_iff Let_def)
qed

lemma inference_loop_five:
  assumes "bs \<noteq> []" and "list_all five_tuple bs"
  shows "inference_loop X m st bs acc = Inl (ValueError ''too many values to unpack (expected 3)'')"
proof -
  from assms obtain b rest where bs: "bs = b # rest" and "five_tuple b"
    by (cases bs) auto
  then obtain t where "b = Inr t" "length t = 5"
    by (cases b) (auto simp: five_tuple_def)
  then show ?thesis
    by (simp add: bs ebind_Inr unpack3_five ebind_Inl)
qed

text \<open>
  Claim C3. For the split \<open>test2\<close> the loader uses \<open>normal_collate_fn\<close>, so every
  batch it yields has five components, the three-way unpacking of line 44 of
  evaluate\_test2.py fails on each of them, and \<open>test2_inference\<close> raises on the
  first batch whenever the split is not empty.
\<close>

theorem test2_batches_break_inference:
  assumes "get_dataloader (tok X) f bs ''test2'' = Inr dl"
  shows "collate_fn dl = Normal_collate
     \<and> list_all five_tuple (loader_batches (tok X) (perm X) dl)
     \<and> list_all (\<lambda>b. ebind b unpack3 = Inl (ValueError ''too many values to unpack (expected 3)''))
         (loader_batches (tok X) (perm X) dl)
     \<and> (0 < dataset_len (dataset dl) \<longrightarrow>
          test2_inference X m dl sql_path record_path f'
            = Inl (ValueError ''too many values to unpack (expected 3)''))"
proof -
  note g = get_dataloader_test2 [OF assms]
  note five = loader_batches_test2 [OF assms, of "perm X"]
  have un: "list_all (\<lambda>b. ebind b unpack3 = Inl (ValueError ''too many values to unpack (expected 3)''))
         (loader_batches (tok X) (perm X) dl)"
    using five by (simp add: list_all_iff five_tuple_unpack)
  have "loader_batches (tok X) (perm X) dl \<noteq> []" if "0 < dataset_len (dataset dl)"
    using that g by (simp add: loader_batches_def Let_def chunks_exists)
  then have "0 < dataset_len (dataset dl) \<longrightarrow>
          test2_inference X m dl sql_path record_path f'
            = Inl (ValueError ''too many values to unpack (expected 3)'')"
    using five by (simp add: test2_inference_def inference_loop_five ebind_Inl)
  with g five un show ?thesis by simp
qed


lemma demo_get_dataloader:
  "get_dataloader demo_tokenizer demo_test2_fs 16 ''test2'' = Inr demo_test2_loader"
  by (simp add: get_dataloader_def T5Dataset_def load_lines_def readlines_def demo_test2_fs_def
      path_join_def ebind_def strip_def isspace_def newline_def demo_test2_loader_def
      find_bos_token_id_def demo_tokenizer_def preprocess_nl_query_def)

theorem test2_batches_break_inference_witness:
  "get_dataloader (tok demo_externals) demo_test2_fs 16 ''test2'' = Inr demo_test2_loader
   \<and> 0 < dataset_len (dataset demo_test2_loader)
   \<and> test2_inference demo_externals () demo_test2_loader ''a.sql'' ''a.pkl'' demo_test2_fs
       = Inl (ValueError ''too many values to unpack (expected 3)'')"
proof -
  have h: "get_dataloader (tok demo_externals) demo_test2_fs 16 ''test2'' = Inr demo_test2_loader"
    by (simp add: demo_externals_def demo_get_dataloader)
  have n: "0 < dataset_len (dataset demo_test2_loader)"
    by (simp add: dataset_len_def demo_test2_loader_def)
  from test2_batches_break_inference [OF h, of "()" "''a.sql''" "''a.pkl''" demo_test2_fs] n h
  show ?thesis by simp
qed


section \<open>The ground truth cache of evaluate\_test2.py\<close>

lemma evaluate_all_events:
  "\<exists>evs. events (evaluate_all X a dl exps f tr rs) = tr @ evs \<and> list_all is_evaluating evs
         \<and> (exps \<noteq> [] \<longrightarrow> evs \<noteq> [])"
proof (induction exps arbitrary: f tr rs)
  case Nil
  then show ?case by simp
next
  case (Cons p exps)
  obtain mt exp_name where p: "p = (mt, exp_name)" by (cases p)
  have ev: "is_evaluating (Evaluating mt exp_name)" by (simp add: is_evaluating_def)
  show ?case
  proof (cases "load_model_from_checkpoint X (contains ''ft'' mt)
                (path_join (path_join (checkpoint_dir a) mt) exp_name)")
    case (Inl e)
    then show ?thesis using ev by (simp add: p Let_def)
  next
    case (Inr m)
    show ?thesis
    proof (cases "test2_inference X m dl
        (''results/t5_'' @ (if contains ''ft'' mt then ''ft'' else ''scr'') @ ''_'' @ exp_name @ ''_test2.sql'')
        (''records/t5_'' @ (if contains ''ft'' mt then ''ft'' else ''scr'') @ ''_'' @ exp_name @ ''_test2.pkl'') f")
      case (Inl e)
      then show ?thesis using Inr ev by (simp add: p Let_def)
    next
      case inf: (Inr r)
      obtain sqls f' where r: "r = (sqls, f')" by (cases r)
      obtain sql_em record_em record_f1 msgs where cm:
        "compute_metrics X f' gt_sql_path
           (''results/t5_'' @ (if contains ''ft'' mt then ''ft'' else ''scr'') @ ''_'' @ exp_name @ ''_test2.sql'')
           gt_record_path
           (''records/t5_'' @ (if contains ''ft'' mt then ''ft'' else ''scr'') @ ''_'' @ exp_name @ ''_test2.pkl'')
         = (sql_em, record_em, record_f1, msgs)"
        by (metis prod_cases4)
      from Cons.IH [of f' "tr @ [Evaluating mt exp_name]"]
      obtain evs where
        "events (evaluate_all X a dl exps f' (tr @ [Evaluating mt exp_name])
           (rs @ [\<lparr>res_experiment = exp_name,
                   res_model_type = (if contains ''ft'' mt then ''ft'' else ''scr''),
                   res_sql_em = sql_em, res_record_em = record_em,
                   res_record_f1 = record_f1, res_error_rate = error_rate msgs\<rparr>]))
         = (tr @ [Evaluating mt exp_name]) @ evs" "list_all is_evaluating evs"
        by blast
      then show ?thesis
        using Inr inf r cm ev
        by (intro exI [of _ "Evaluating mt exp_name # evs"]) (simp add: p Let_def)
    qed
  qed
qed

lemma create_ground_truth_cached:
  "path_exists f gt_record_path \<Longrightarrow> create_ground_truth X f = Inr (f, [])"
  by (simp add: create_ground_truth_def)

lemma create_ground_truth_fresh:
  assumes "\<not> path_exists f gt_record_path" and "readlines f gt_sql_path = Inr ls"
  shows "create_ground_truth X f =
     Inr (f(gt_record_path \<mapsto> Pickled (fst (compute_records X (map strip ls)))
                                   (snd (compute_records X (map strip ls)))),
          [Executed_gold (map strip ls), Wrote_cache gt_record_path])"
  using assms by (simp add: create_ground_truth_def ebind_Inr Let_def split_beta)

lemma create_ground_truth_Inr:
  assumes "create_ground_truth X f = Inr r" and "\<not> path_exists f gt_record_path"
  shows "\<exists>ls. readlines f gt_sql_path = Inr ls"
  using assms by (cases "readlines f gt_sql_path") (simp_all add: create_ground_truth_def ebind_Inl)

text \<open>
  Claim C9 (as amended). In every run of evaluate\_test2.py that evaluates at least one
  experiment: if the ground truth cache file exists it is left as it is, nothing is
  executed or written for the gold side, and the run consists of evaluations only; if
  it does not exist, the gold queries are executed exactly once and the pair of their
  records and error messages is written to the cache path, both before the first
  experiment is evaluated.
\<close>

theorem gold_cache_policy:
  assumes "list_ex is_evaluating (events (evaluate_main X a f))"
  shows "if path_exists f gt_record_path
         then create_ground_truth X f = Inr (f, [])
              \<and> list_all is_evaluating (events (evaluate_main X a f))
         else (\<exists>ls evs. readlines f gt_sql_path = Inr ls
                \<and> create_ground_truth X f =
                    Inr (f(gt_record_path \<mapsto> Pickled (fst (compute_records X (map strip ls)))
                                                     (snd (compute_records X (map strip ls)))),
                         [Executed_gold (map strip ls), Wrote_cache gt_record_path])
                \<and> events (evaluate_main X a f)
                    = [Executed_gold (map strip ls), Wrote_cache gt_record_path] @ evs
                \<and> evs \<noteq> [] \<and> list_all is_evaluating evs)"
proof -
  from assms obtain dl where dl: "get_dataloader (tok X) f (test_batch_size a) ''test2'' = Inr dl"
    by (cases "get_dataloader (tok X) f (test_batch_size a) ''test2''")
       (simp_all add: evaluate_main_def)
  from assms dl obtain exps where exps: "select_experiments f a = Inr exps"
    by (cases "select_experiments f a") (simp_all add: evaluate_main_def)
  from assms dl exps have ne: "exps \<noteq> []"
    by (auto simp: evaluate_main_def truthy_def)
  from assms dl exps ne obtain f' tr where cg: "create_ground_truth X f = Inr (f', tr)"
    by (cases "create_ground_truth X f") (auto simp: evaluate_main_def truthy_def)
  have main: "evaluate_main X a f = evaluate_all X a dl exps f' tr []"
    by (simp add: evaluate_main_def dl exps ne truthy_def cg)
  from evaluate_all_events [of X a dl exps f' tr "[]"] ne obtain evs where
    evs: "events (evaluate_main X a f) = tr @ evs" "list_all is_evaluating evs" "evs \<noteq> []"
    unfolding main by blast
  show ?thesis
  proof (cases "path_exists f gt_record_path")
    case True
    from create_ground_truth_cached [OF True, of X] cg have "tr = []" by simp
    with True evs create_ground_truth_cached [OF True, of X] show ?thesis by simp
  next
    case False
    from create_ground_truth_Inr [OF cg False] obtain ls where
      ls: "readlines f gt_sql_path = Inr ls" by blast
    from create_ground_truth_fresh [OF False ls, of X] cg
    have "tr = [Executed_gold (map strip ls), Wrote_cache gt_record_path]" by simp
    with False ls evs create_ground_truth_fresh [OF False ls, of X] show ?thesis
      by auto
  qed
qed


subsection \<open>Two runs with a checkpoint, one run without\<close>

lemma test2_inference_raises:
  assumes "get_dataloader (tok X) f bs ''test2'' = Inr dl" and "0 < dataset_len (dataset dl)"
  shows "test2_inference X m dl sp rp f'
           = Inl (ValueError ''too many values to unpack (expected 3)'')"
proof -
  from get_dataloader_test2 [OF assms(1)] assms(2)
  have "loader_batches (tok X) (perm X) dl \<noteq> []"
    by (simp add: loader_batches_def Let_def chunks_exists)
  with loader_batches_test2 [OF assms(1), of "perm X"] show ?thesis
    by (simp add: test2_inference_def inference_loop_five ebind_Inl)
qed

lemma demo_ckpt_loader:
  "get_dataloader demo_tokenizer demo_ckpt_fs 16 ''test2'' = Inr demo_test2_loader"
  by (simp add: get_dataloader_def T5Dataset_def load_lines_def readlines_def demo_test2_fs_def
      demo_ckpt_fs_def
      path_join_def ebind_def strip_def isspace_def newline_def demo_test2_loader_def
      find_bos_token_id_def demo_tokenizer_def preprocess_nl_query_def)

lemma demo_cached_loader:
  "get_dataloader demo_tokenizer demo_cached_fs 16 ''test2'' = Inr demo_test2_loader"
  by (simp add: get_dataloader_def T5Dataset_def load_lines_def readlines_def demo_test2_fs_def
      demo_ckpt_fs_def demo_cached_fs_def
      path_join_def ebind_def strip_def isspace_def newline_def demo_test2_loader_def
      find_bos_token_id_def demo_tokenizer_def preprocess_nl_query_def)

lemma demo_select_fresh:
  "select_experiments demo_ckpt_fs demo_eval_args = Inr [(''ft_experiments'', ''base'')]"
  by (simp add: select_experiments_def demo_eval_args_def truthy_opt_def truthy_def
      named_experiments_def path_join_def path_exists_def demo_ckpt_fs_def)

lemma demo_select_cached:
  "select_experiments demo_cached_fs demo_eval_args = Inr [(''ft_experiments'', ''base'')]"
  by (simp add: select_experiments_def demo_eval_args_def truthy_opt_def truthy_def
      named_experiments_def path_join_def path_exists_def demo_ckpt_fs_def demo_cached_fs_def)

lemma demo_fresh_absent: "\<not> path_exists demo_ckpt_fs gt_record_path"
  by (simp add: path_exists_def demo_ckpt_fs_def demo_test2_fs_def gt_record_path_def)

lemma demo_cached_present: "path_exists demo_cached_fs gt_record_path"
  by (simp add: path_exists_def demo_cached_fs_def gt_record_path_def)

lemma demo_fresh_sql:
  "readlines demo_ckpt_fs gt_sql_path = Inr [''x'' @ newline, ''yz'' @ newline]"
  by (simp add: readlines_def demo_ckpt_fs_def demo_test2_fs_def gt_sql_path_def)

lemma demo_loader_len: "0 < dataset_len (dataset demo_test2_loader)"
  by (simp add: dataset_len_def demo_test2_loader_def)

lemma demo_fresh_events:
  "events (evaluate_main demo_externals demo_eval_args demo_ckpt_fs)
     = [Executed_gold (map strip [''x'' @ newline, ''yz'' @ newline]),
        Wrote_cache gt_record_path, Evaluating ''ft_experiments'' ''base'']"
proof -
  have t: "tok demo_externals = demo_tokenizer" by (simp add: demo_externals_def)
  have l: "get_dataloader (tok demo_externals) demo_ckpt_fs 16 ''test2'' = Inr demo_test2_loader"
    by (simp add: t demo_ckpt_loader)
  have m: "load_model_from_checkpoint demo_externals b p = Inr ()" for b p
    by (simp add: demo_externals_def)
  show ?thesis
    by (simp add: evaluate_main_def demo_eval_args_def [THEN arg_cong, of test_batch_size]
        l demo_select_fresh truthy_def
        create_ground_truth_fresh [OF demo_fresh_absent demo_fresh_sql] Let_def m
        test2_inference_raises [OF l demo_loader_len])
qed

lemma demo_cached_events:
  "events (evaluate_main demo_externals demo_eval_args demo_cached_fs)
     = [Evaluating ''ft_experiments'' ''base'']"
proof -
  have t: "tok demo_externals = demo_tokenizer" by (simp add: demo_externals_def)
  have l: "get_dataloader (tok demo_externals) demo_cached_fs 16 ''test2'' = Inr demo_test2_loader"
    by (simp add: t demo_cached_loader)
  have m: "load_model_from_checkpoint demo_externals b p = Inr ()" for b p
    by (simp add: demo_externals_def)
  show ?thesis
    by (simp add: evaluate_main_def demo_eval_args_def [THEN arg_cong, of test_batch_size]
        l demo_select_cached truthy_def
        create_ground_truth_cached [OF demo_cached_present] Let_def m
        test2_inference_raises [OF l demo_loader_len])
qed

theorem gold_cache_policy_witness:
  "list_ex is_evaluating (events (evaluate_main demo_externals demo_eval_args demo_ckpt_fs))
   \<and> (\<exists>ls evs. readlines demo_ckpt_fs gt_sql_path = Inr ls
         \<and> events (evaluate_main demo_externals demo_eval_args demo_ckpt_fs)
             = [Executed_gold (map strip ls), Wrote_cache gt_record_path] @ evs
         \<and> evs \<noteq> [] \<and> list_all is_evaluating evs)
   \<and> list_ex is_evaluating (events (evaluate_main demo_externals demo_eval_args demo_cached_fs))
   \<and> create_ground_truth demo_externals demo_cached_fs = Inr (demo_cached_fs, [])
   \<and> list_all is_evaluating (events (evaluate_main demo_externals demo_eval_args demo_cached_fs))"
proof -
  have h1: "list_ex is_evaluating (events (evaluate_main demo_externals demo_eval_args demo_ckpt_fs))"
    by (simp add: demo_fresh_events is_evaluating_def)
  have h2: "list_ex is_evaluating (events (evaluate_main demo_externals demo_eval_args demo_cached_fs))"
    by (simp add: demo_cached_events is_evaluating_def)
  from gold_cache_policy [OF h1] demo_fresh_absent
  have c1: "\<exists>ls evs. readlines demo_ckpt_fs gt_sql_path = Inr ls
         \<and> events (evaluate_main demo_externals demo_eval_args demo_ckpt_fs)
             = [Executed_gold (map strip ls), Wrote_cache gt_record_path] @ evs
         \<and> evs \<noteq> [] \<and> list_all is_evaluating evs"
    by (simp only: if_False) blast
  from gold_cache_policy [OF h2] demo_cached_present
  have c2: "create_ground_truth demo_externals demo_cached_fs = Inr (demo_cached_fs, [])
     \<and> list_all is_evaluating (events (evaluate_main demo_externals demo_eval_args demo_cached_fs))"
    by (simp only: if_True)
  from h1 c1 h2 c2 show ?thesis by blast
qed

text \<open>
  The claim as first stated fails: with no cache file and no experiment to evaluate,
  the run returns at line 108 and the gold queries are never executed.
\<close>

theorem gold_cache_counterexample:
  "\<not> path_exists demo_test2_fs gt_record_path
   \<and> evaluate_main demo_externals demo_noexp_args demo_test2_fs
       = \<lparr>files = demo_test2_fs, events = [], results = [], failure = None\<rparr>"
proof -
  have t: "tok demo_externals = demo_tokenizer" by (simp add: demo_externals_def)
  have l: "get_dataloader (tok demo_externals) demo_test2_fs 16 ''test2'' = Inr demo_test2_loader"
    by (simp add: t demo_get_dataloader)
  have s: "select_experiments demo_test2_fs demo_noexp_args = Inr []"
    by (simp add: select_experiments_def demo_noexp_args_def truthy_opt_def find_experiments_def
        path_exists_def demo_test2_fs_def)
  have "\<not> path_exists demo_test2_fs gt_record_path"
    by (simp add: path_exists_def demo_test2_fs_def gt_record_path_def)
  then show ?thesis
    by (simp add: evaluate_main_def demo_noexp_args_def [THEN arg_cong, of test_batch_size]
        l s truthy_def)
qed


section \<open>The indices of the mismatches and of the SQL errors\<close>

lemma map_fst_filter_enumerate:
  "map fst (filter (\<lambda>(i, x). R i x) (enumerate 0 xs))
     = filter (\<lambda>i. R i (xs ! i)) [0..<length xs]"
proof (induction xs rule: rev_induct)
  case Nil
  then show ?case by simp
next
  case (snoc x xs)
  have "filter (\<lambda>i. R i ((xs @ [x]) ! i)) [0..<length xs]
          = filter (\<lambda>i. R i (xs ! i)) [0..<length xs]"
    by (rule filter_cong) (simp_all add: nth_append)
  with snoc show ?case
    by (simp add: enumerate_append_eq)
qed

lemma enumerate_fst_less: "e \<in> set (enumerate 0 xs) \<Longrightarrow> fst e < length xs"
  by (simp add: in_set_enumerate_eq)

lemma record_mismatches_Some:
  assumes "msgs \<noteq> []" and "\<forall>e\<in>set items. fst e < length msgs"
  shows "record_mismatches (Some msgs) items
           = Inr (filter (\<lambda>(i, nl, g, p, gr, pr).
                     \<not> has_sql_error (msgs ! i) \<and> records_differ gr pr) items)"
  using assms(2)
proof (induction items)
  case Nil
  then show ?case by simp
next
  case (Cons e items)
  obtain i nl g p gr pr where e: "e = (i, nl, g, p, gr, pr)" by (metis prod_cases6)
  from Cons.prems have "i < length msgs" by (simp add: e)
  with assms(1) have "skip_sql_error (Some msgs) i = Inr (has_sql_error (msgs ! i))"
    by (simp add: skip_sql_error_def truthy_def)
  with Cons show ?case by (simp add: e)
qed

lemma record_mismatches_falsy:
  assumes "\<not> truthy_opt msgs"
  shows "record_mismatches msgs items
           = Inr (filter (\<lambda>(i, nl, g, p, gr, pr). records_differ gr pr) items)"
proof -
  from assms have s: "skip_sql_error msgs i = Inr False" for i
    by (cases msgs) (simp_all add: skip_sql_error_def truthy_opt_def)
  show ?thesis
  proof (induction items)
    case Nil
    then show ?case by simp
  next
    case (Cons e items)
    obtain i nl g p gr pr where e: "e = (i, nl, g, p, gr, pr)" by (metis prod_cases6)
    from Cons show ?case by (simp add: e s)
  qed
qed

text \<open>What the length checks establish.\<close>

lemma verify_lengths_None:
  assumes "verify_lengths L = None"
  shows "length (gold_sql L) = length (nl_queries L)"
    and "length (model_sql L) = length (nl_queries L)"
    and "gold_records L = Some grecs \<Longrightarrow> grecs \<noteq> [] \<Longrightarrow> length grecs = length (nl_queries L)"
    and "model_records L = Some precs \<Longrightarrow> precs \<noteq> [] \<Longrightarrow> length precs = length (nl_queries L)"
    and "error_msgs L = Some msgs \<Longrightarrow> msgs \<noteq> [] \<Longrightarrow> length msgs = length (nl_queries L)"
  using assms
  by (auto simp: verify_lengths_def truthy_opt_def truthy_def split: if_splits)

lemma record_mode_mismatches:
  assumes v: "verify_lengths L = None"
    and g: "gold_records L = Some grecs" "grecs \<noteq> []"
    and p: "model_records L = Some precs" "precs \<noteq> []"
    and m: "error_msgs L = Some msgs" "msgs \<noteq> []"
  shows "\<exists>ms. find_mismatches L = ([], Inr ms)
           \<and> map fst ms = filter (\<lambda>i. \<not> has_sql_error (msgs ! i)
                                      \<and> records_differ (grecs ! i) (precs ! i))
                             [0..<length (nl_queries L)]"
proof -
  let ?n = "length (nl_queries L)"
  let ?zs = "zip (nl_queries L) (zip (gold_sql L) (zip (model_sql L) (zip grecs precs)))"
  note len = verify_lengths_None(1,2) [OF v] verify_lengths_None(3) [OF v g]
    verify_lengths_None(4) [OF v p] verify_lengths_None(5) [OF v m]
  have lz: "length ?zs = ?n" by (simp add: len)
  have rm: "record_mode L"
    by (simp add: record_mode_def truthy_opt_def truthy_def g p)
  have "\<forall>e\<in>set (enumerate 0 ?zs). fst e < length msgs"
    using lz len by (auto dest: enumerate_fst_less)
  from record_mismatches_Some [OF m(2) this]
  have fm: "find_mismatches L = ([], Inr (filter (\<lambda>(i, nl, g, p, gr, pr).
                     \<not> has_sql_error (msgs ! i) \<and> records_differ gr pr) (enumerate 0 ?zs)))"
    by (simp add: find_mismatches_def rm g p m)
  have "map fst (filter (\<lambda>(i, nl, g, p, gr, pr).
                     \<not> has_sql_error (msgs ! i) \<and> records_differ gr pr) (enumerate 0 ?zs))
        = filter (\<lambda>i. (case ?zs ! i of (nl, g, p, gr, pr) \<Rightarrow>
                     \<not> has_sql_error (msgs ! i) \<and> records_differ gr pr)) [0..<length ?zs]"
    by (rule map_fst_filter_enumerate)
  also have "\<dots> = filter (\<lambda>i. \<not> has_sql_error (msgs ! i)
                                      \<and> records_differ (grecs ! i) (precs ! i)) [0..<?n]"
    unfolding lz by (rule filter_cong) (simp_all add: len)
  finally show ?thesis using fm by blast
qed

lemma error_queries_indices:
  assumes v: "verify_lengths L = None" and m: "error_msgs L = Some msgs" "msgs \<noteq> []"
  shows "map fst (find_error_queries L)
           = filter (\<lambda>i. has_sql_error (msgs ! i)) [0..<length (nl_queries L)]"
proof -
  let ?n = "length (nl_queries L)"
  let ?zs = "zip (nl_queries L) (zip (gold_sql L) (zip (model_sql L) msgs))"
  note len = verify_lengths_None(1,2) [OF v] verify_lengths_None(5) [OF v m]
  have lz: "length ?zs = ?n" by (simp add: len)
  have "map fst (filter (\<lambda>(i, nl, g, p, msg). has_sql_error msg) (enumerate 0 ?zs))
        = filter (\<lambda>i. (case ?zs ! i of (nl, g, p, msg) \<Rightarrow> has_sql_error msg)) [0..<length ?zs]"
    by (rule map_fst_filter_enumerate)
  also have "\<dots> = filter (\<lambda>i. has_sql_error (msgs ! i)) [0..<?n]"
    unfolding lz by (rule filter_cong) (simp_all add: len)
  finally show ?thesis
    by (simp add: find_error_queries_def truthy_opt_def truthy_def m)
qed



section \<open>Runs of find\_mismatches.py that pass the length checks\<close>

lemma find_mismatches_ok:
  assumes v: "verify_lengths L = None"
  shows "\<exists>c1 ms. find_mismatches L = (c1, Inr ms)"
proof (cases "record_mode L")
  case False
  then show ?thesis by (simp add: find_mismatches_def)
next
  case True
  then obtain grecs precs where g: "gold_records L = Some grecs" "grecs \<noteq> []"
    and p: "model_records L = Some precs" "precs \<noteq> []"
    by (auto simp: record_mode_def truthy_opt_def truthy_def split: option.splits)
  show ?thesis
  proof (cases "truthy_opt (error_msgs L)")
    case True
    then obtain msgs where m: "error_msgs L = Some msgs" "msgs \<noteq> []"
      by (auto simp: truthy_opt_def truthy_def split: option.splits)
    from record_mode_mismatches [OF v g p m] show ?thesis by blast
  next
    case False
    show ?thesis
      by (simp add: find_mismatches_def \<open>record_mode L\<close> record_mismatches_falsy [OF False])
  qed
qed

lemma print_summary_ok:
  "nl_queries L \<noteq> [] \<Longrightarrow> snd (print_summary E L ms errs) = None"
  by (simp add: print_summary_def Let_def)

lemma main_ok:
  assumes "load_inputs E a = Load_ok c L" and "verify_lengths L = None"
    and "find_mismatches L = (c1, Inr ms)" and "nl_queries L \<noteq> []"
  shows "main E a =
     \<lparr>console = c @ c1 @ fst (print_summary E L ms (find_error_queries L))
                  @ report_console E a L ms (find_error_queries L),
      written = report_files E a L ms (find_error_queries L),
      raised = None\<rparr>"
proof -
  obtain c2 r where ps: "print_summary E L ms (find_error_queries L) = (c2, r)"
    by (cases "print_summary E L ms (find_error_queries L)")
  with print_summary_ok [OF assms(4), of E ms "find_error_queries L"] have "r = None" by simp
  with ps assms(1-3) show ?thesis
    by (simp add: main_def)
qed

lemma record_mode_nonempty:
  assumes "verify_lengths L = None" and "record_mode L"
  shows "nl_queries L \<noteq> []"
proof -
  from assms(2) obtain grecs where g: "gold_records L = Some grecs" "grecs \<noteq> []"
    by (auto simp: record_mode_def truthy_opt_def truthy_def split: option.splits)
  from verify_lengths_None(3) [OF assms(1) g] g(2) show ?thesis by auto
qed


lemma demo_inputs_verified: "verify_lengths demo_inputs = None"
  by (simp add: verify_lengths_def demo_inputs_def truthy_opt_def truthy_def)



lemma demo_error_queries:
  "map fst (find_error_queries demo_inputs) = [2]"
  by (simp add: find_error_queries_def demo_inputs_def truthy_opt_def truthy_def
      enumerate_eq_zip has_sql_error_def strip_def isspace_def upt_rec)



lemma error_count_card:
  "sum_list (map (\<lambda>msg. Suc 0) (filter (\<lambda>msg. msg \<noteq> []) msgs))
     = card {i. i < length msgs \<and> msgs ! i \<noteq> []}"
  by (simp add: count_ones length_filter_conv_card)

text \<open>
  Claim C10. The reporter lists index \<open>i\<close> as an SQL error, and leaves it out of the
  record comparison, exactly when its message is not empty after stripping, whereas the
  error rate of evaluate\_test2.py counts every message different from the empty string.
  A message of whitespace only is counted in the rate and is not listed as an error;
  the two counts differ by the number of such messages.
\<close>

theorem blank_messages_disagree:
  assumes v: "verify_lengths L = None" and m: "error_msgs L = Some msgs" "msgs \<noteq> []"
  shows "set (map fst (find_error_queries L))
           = {i. i < length (nl_queries L) \<and> strip (msgs ! i) \<noteq> []}
     \<and> (\<forall>grecs precs.
           gold_records L = Some grecs \<and> grecs \<noteq> [] \<and> model_records L = Some precs \<and> precs \<noteq> []
           \<longrightarrow> (\<exists>ms. find_mismatches L = ([], Inr ms)
                  \<and> set (map fst ms)
                      = {i. i < length (nl_queries L) \<and> strip (msgs ! i) = []
                            \<and> records_differ (grecs ! i) (precs ! i)}))
     \<and> error_rate msgs
         = of_nat (card {i. i < length (nl_queries L) \<and> msgs ! i \<noteq> []})
           / of_nat (length (nl_queries L))
     \<and> {i. i < length (nl_queries L) \<and> msgs ! i \<noteq> [] \<and> list_all isspace (msgs ! i)}
         \<subseteq> {i. i < length (nl_queries L) \<and> msgs ! i \<noteq> []}
             - set (map fst (find_error_queries L))
     \<and> card {i. i < length (nl_queries L) \<and> msgs ! i \<noteq> []}
         = length (find_error_queries L)
           + card {i. i < length (nl_queries L) \<and> msgs ! i \<noteq> [] \<and> strip (msgs ! i) = []}"
proof -
  let ?n = "length (nl_queries L)"
  note es = error_queries_indices [OF v m]
  note len = verify_lengths_None(5) [OF v m]
  have c1: "set (map fst (find_error_queries L)) = {i. i < ?n \<and> strip (msgs ! i) \<noteq> []}"
    unfolding es by (auto simp: has_sql_error_iff)
  have c2: "\<exists>ms. find_mismatches L = ([], Inr ms)
                  \<and> set (map fst ms)
                      = {i. i < ?n \<and> strip (msgs ! i) = []
                            \<and> records_differ (grecs ! i) (precs ! i)}"
    if "gold_records L = Some grecs" "grecs \<noteq> []" "model_records L = Some precs" "precs \<noteq> []"
    for grecs precs
  proof -
    from record_mode_mismatches [OF v that m] obtain ms where
      "find_mismatches L = ([], Inr ms)"
      "map fst ms = filter (\<lambda>i. \<not> has_sql_error (msgs ! i)
                                      \<and> records_differ (grecs ! i) (precs ! i)) [0..<?n]"
      by blast
    then show ?thesis
      by (intro exI [of _ ms]) (auto simp: has_sql_error_iff)
  qed
  have c3: "error_rate msgs = of_nat (card {i. i < ?n \<and> msgs ! i \<noteq> []}) / of_nat ?n"
    using m(2) by (simp add: error_rate_def truthy_def error_count_card len)
  have c4: "{i. i < ?n \<and> msgs ! i \<noteq> [] \<and> list_all isspace (msgs ! i)}
         \<subseteq> {i. i < ?n \<and> msgs ! i \<noteq> []} - set (map fst (find_error_queries L))"
    unfolding c1 by (auto simp: strip_blank)
  have "{i. i < ?n \<and> msgs ! i \<noteq> []}
          = {i. i < ?n \<and> strip (msgs ! i) \<noteq> []}
            \<union> {i. i < ?n \<and> msgs ! i \<noteq> [] \<and> strip (msgs ! i) = []}"
    by (auto simp: strip_Nil)
  moreover have "{i. i < ?n \<and> strip (msgs ! i) \<noteq> []}
            \<inter> {i. i < ?n \<and> msgs ! i \<noteq> [] \<and> strip (msgs ! i) = []} = {}"
    by auto
  ultimately have "card {i. i < ?n \<and> msgs ! i \<noteq> []}
          = card {i. i < ?n \<and> strip (msgs ! i) \<noteq> []}
            + card {i. i < ?n \<and> msgs ! i \<noteq> [] \<and> strip (msgs ! i) = []}"
    by (simp add: card_Un_disjoint)
  moreover have "length (find_error_queries L) = card {i. i < ?n \<and> strip (msgs ! i) \<noteq> []}"
  proof -
    have "length (find_error_queries L) = length (map fst (find_error_queries L))" by simp
    also have "\<dots> = card (set (map fst (find_error_queries L)))"
      unfolding es by (rule distinct_card [symmetric]) simp
    finally show ?thesis by (simp only: c1)
  qed
  ultimately have c5: "card {i. i < ?n \<and> msgs ! i \<noteq> []}
         = length (find_error_queries L)
           + card {i. i < ?n \<and> msgs ! i \<noteq> [] \<and> strip (msgs ! i) = []}"
    by simp
  from c1 c2 c3 c4 c5 show ?thesis by blast
qed

theorem blank_messages_disagree_witness:
  "verify_lengths demo_inputs = None
   \<and> set (map fst (find_error_queries demo_inputs))
       = {i. i < length (nl_queries demo_inputs)
             \<and> strip ([[], [], ''no such column: nope'', ''  ''] ! i) \<noteq> []}
   \<and> map fst (find_error_queries demo_inputs) = [2]
   \<and> error_rate [[], [], ''no such column: nope'', ''  ''] = 1 / 2"
proof -
  have m: "error_msgs demo_inputs = Some [[], [], ''no such column: nope'', ''  '']"
    by (simp add: demo_inputs_def)
  have r: "error_rate [[], [], ''no such column: nope'', ''  ''] = 1 / 2"
    by (simp add: error_rate_def truthy_def)
  have ne: "[[], [], ''no such column: nope'', ''  ''] \<noteq> []"
    by simp
  from blank_messages_disagree [OF demo_inputs_verified m ne]
  have "set (map fst (find_error_queries demo_inputs))
       = {i. i < length (nl_queries demo_inputs)
             \<and> strip ([[], [], ''no such column: nope'', ''  ''] ! i) \<noteq> []}"
    by blast
  with demo_inputs_verified demo_error_queries r show ?thesis by blast
qed


section \<open>The length checks\<close>

lemmas demo_load_defs =
  load_inputs_def load_model_sql_def load_gold_records_def load_model_records_def
  readlines_def pickle_load_def path_exists_def nl_path_def gold_sql_path_def
  gold_record_path_def model_sql_path_def model_sql_path_alt_def model_record_path_def
  model_record_path_alt_def model_type_of_def path_join_def
  demo_args_def demo_queries_def demo_short_queries_def demo_dev_fs_def demo_env_def
  demo_short_env_def demo_emptygold_env_def demo_badrec_env_def

lemma verify_lengths_Some:
  assumes "length (nl_queries L) \<noteq> length (gold_sql L)
      \<or> length (gold_sql L) \<noteq> length (model_sql L)
      \<or> (\<exists>recs. gold_records L = Some recs \<and> recs \<noteq> []
            \<and> length recs \<noteq> length (nl_queries L))
      \<or> (\<exists>recs. model_records L = Some recs \<and> recs \<noteq> []
            \<and> length recs \<noteq> length (model_sql L))
      \<or> (\<exists>msgs. error_msgs L = Some msgs \<and> msgs \<noteq> []
            \<and> length msgs \<noteq> length (model_sql L))"
  shows "\<exists>msg. verify_lengths L = Some (AssertionError (''Mismatch: '' @ msg))"
  using assms
  by (auto simp: verify_lengths_def truthy_opt_def truthy_def)

text \<open>
  Claim C2 (as amended). If the numbers of questions, gold queries and predicted
  queries are not all equal, or a loaded list of records or error messages that is not
  empty differs in length from them, the run ends with an \<open>AssertionError\<close> whose
  message starts with \<open>Mismatch:\<close>; nothing has been printed beyond the loading
  messages and no file has been written.
\<close>

theorem length_mismatch_aborts:
  assumes "load_inputs E a = Load_ok c L"
    and "length (nl_queries L) \<noteq> length (gold_sql L)
      \<or> length (gold_sql L) \<noteq> length (model_sql L)
      \<or> (\<exists>recs. gold_records L = Some recs \<and> recs \<noteq> []
            \<and> length recs \<noteq> length (nl_queries L))
      \<or> (\<exists>recs. model_records L = Some recs \<and> recs \<noteq> []
            \<and> length recs \<noteq> length (model_sql L))
      \<or> (\<exists>msgs. error_msgs L = Some msgs \<and> msgs \<noteq> []
            \<and> length msgs \<noteq> length (model_sql L))"
  shows "\<exists>msg. main E a
           = \<lparr>console = c, written = [], raised = Some (AssertionError (''Mismatch: '' @ msg))\<rparr>"
proof -
  from verify_lengths_Some [OF assms(2)] obtain msg where
    "verify_lengths L = Some (AssertionError (''Mismatch: '' @ msg))" by blast
  with assms(1) show ?thesis
    by (simp add: main_def)
qed

lemma demo_badrec_load:
  "\<exists>c. load_inputs demo_badrec_env demo_args
        = Load_ok c \<lparr>nl_queries = [''q0'', ''q1''], gold_sql = [''SELECT a'', ''SELECT b''],
                      model_sql = [''SELECT a '', ''SELECT x''],
                      gold_records = Some [Some [[1]]], model_records = None,
                      error_msgs = None\<rparr>"
  by (simp add: demo_load_defs strip_def isspace_def newline_def)

theorem length_mismatch_aborts_witness:
  "(\<exists>msg. raised (main demo_badrec_env demo_args)
            = Some (AssertionError (''Mismatch: '' @ msg)))
   \<and> written (main demo_badrec_env demo_args) = []"
proof -
  let ?L = "\<lparr>nl_queries = [''q0'', ''q1''], gold_sql = [''SELECT a'', ''SELECT b''],
                      model_sql = [''SELECT a '', ''SELECT x''],
                      gold_records = Some [Some [[1::int]]], model_records = None,
                      error_msgs = None\<rparr>"
  from demo_badrec_load obtain c where
    l: "load_inputs demo_badrec_env demo_args = Load_ok c ?L" by blast
  have h: "length (nl_queries ?L) \<noteq> length (gold_sql ?L)
      \<or> length (gold_sql ?L) \<noteq> length (model_sql ?L)
      \<or> (\<exists>recs. gold_records ?L = Some recs \<and> recs \<noteq> []
            \<and> length recs \<noteq> length (nl_queries ?L))
      \<or> (\<exists>recs. model_records ?L = Some recs \<and> recs \<noteq> []
            \<and> length recs \<noteq> length (model_sql ?L))
      \<or> (\<exists>msgs. error_msgs ?L = Some msgs \<and> msgs \<noteq> []
            \<and> length msgs \<noteq> length (model_sql ?L))"
    by simp
  from length_mismatch_aborts [OF l h] obtain msg where
    "main demo_badrec_env demo_args
           = \<lparr>console = c, written = [], raised = Some (AssertionError (''Mismatch: '' @ msg))\<rparr>"
    by blast
  then show ?thesis by simp
qed

lemma demo_emptygold_load:
  "\<exists>c. load_inputs demo_emptygold_env demo_args
        = Load_ok c \<lparr>nl_queries = [''q0'', ''q1''], gold_sql = [''SELECT a'', ''SELECT b''],
                      model_sql = [''SELECT a '', ''SELECT x''],
                      gold_records = Some [], model_records = None,
                      error_msgs = None\<rparr>"
  by (simp add: demo_load_defs strip_def isspace_def newline_def)

text \<open>
  The claim as first stated fails for a loaded list that is empty: the gold record file
  holds no record set for two questions, no check fires, and the run completes with the
  comparison of SQL strings.
\<close>

theorem length_mismatch_counterexample:
  "pickle_load (fs demo_emptygold_env) gold_record_path = Inr ([], [])
   \<and> readlines (fs demo_emptygold_env) nl_path = Inr [''q0'' @ newline, ''q1'' @ newline]
   \<and> raised (main demo_emptygold_env demo_args) = None
   \<and> map fst (written (main demo_emptygold_env demo_args)) = [''mismatches/exp1_mismatches.txt'']"
proof -
  let ?L = "\<lparr>nl_queries = [''q0'', ''q1''], gold_sql = [''SELECT a'', ''SELECT b''],
                      model_sql = [''SELECT a '', ''SELECT x''],
                      gold_records = Some [], model_records = None,
                      error_msgs = None :: string list option\<rparr> :: int inputs"
  from demo_emptygold_load obtain c where
    l: "load_inputs demo_emptygold_env demo_args = Load_ok c ?L" by blast
  have v: "verify_lengths ?L = None"
    by (simp add: verify_lengths_def truthy_opt_def truthy_def)
  obtain c1 ms where f: "find_mismatches ?L = (c1, Inr ms)"
    using find_mismatches_ok [OF v] by blast
  have m: "main demo_emptygold_env demo_args =
     \<lparr>console = c @ c1 @ fst (print_summary demo_emptygold_env ?L ms (find_error_queries ?L))
                  @ report_console demo_emptygold_env demo_args ?L ms (find_error_queries ?L),
      written = report_files demo_emptygold_env demo_args ?L ms (find_error_queries ?L),
      raised = None\<rparr>"
    by (rule main_ok [OF l v f]) simp
  have p: "pickle_load (fs demo_emptygold_env) gold_record_path = Inr ([], [])"
    "readlines (fs demo_emptygold_env) nl_path = Inr [''q0'' @ newline, ''q1'' @ newline]"
    by (simp_all add: demo_load_defs)
  have w: "map fst (report_files demo_emptygold_env demo_args ?L ms (find_error_queries ?L))
             = [''mismatches/exp1_mismatches.txt'']"
    by (simp add: report_files_def have_errors_def truthy_opt_def mismatches_path_def
        path_join_def demo_args_def)
  from p w show ?thesis by (simp add: m)
qed

section \<open>The fallback to the comparison of SQL strings\<close>












section \<open>The previews of the records in the reports\<close>

lemma write_records_rows:
  assumes "rows \<noteq> []"
  shows "write_records E label (Some rows)
     = (newline @ label @ '' Records ('' @ str_nat (length rows) @ '' rows):'' @ newline)
       # map (\<lambda>row. ''  '' @ repr_row E row @ newline) (take 10 rows)
       @ (if 10 < length rows
          then [''  ... ('' @ str_nat (length rows - 10) @ '' more rows)'' @ newline]
          else [])"
  using assms by (simp add: write_records_def row_count_def truthy_def)

lemma print_records_rows:
  assumes "rows \<noteq> []"
  shows "print_records E label (Some rows)
     = (newline @ label @ '' Records ('' @ str_nat (length rows) @ '' rows):'')
       # map (\<lambda>row. ''  '' @ repr_row E row) (take 5 rows)
       @ (if 5 < length rows
          then [''  ... ('' @ str_nat (length rows - 5) @ '' more rows)'']
          else [])"
  using assms by (simp add: print_records_def row_count_def truthy_def)

lemma records_length_bounds:
  "length (write_records E label r) \<le> 12 \<and> length (print_records E label r) \<le> 7"
  by (cases r) (auto simp: write_records_def print_records_def)

lemma report_console_ends:
  "\<exists>pre. report_console E a L ms errs
           = pre @ concat (map (print_mismatch E (record_mode L)) (enumerate 1 ms))"
  unfolding report_console_def print_mismatches_def append_assoc [symmetric]
  by (rule exI) (rule refl)

text \<open>
  Claim C8. In a run that reaches its reports, the report file consists of the header
  and one block per mismatch, and the console output ends with one block per mismatch.
  With records, a block shows for each side the first 10 rows in the file and the first
  5 on the console, followed by the line \<open>... (K more rows)\<close> exactly when the side
  has more rows than that, \<open>K\<close> being the number of rows minus the bound; a side takes
  at most 12 lines in the file and 7 on the console.
\<close>

theorem previews_bounded:
  assumes ld: "load_inputs E a = Load_ok c L"
    and v: "verify_lengths L = None"
    and ne: "nl_queries L \<noteq> []"
  shows "\<exists>c1 ms. find_mismatches L = (c1, Inr ms)
     \<and> raised (main E a) = None
     \<and> (\<exists>others. written (main E a)
           = (mismatches_path a,
              mismatch_header E a L ms
              @ concat (map (write_mismatch E (record_mode L)) (enumerate 1 ms))) # others)
     \<and> (\<exists>before. console (main E a)
           = before @ concat (map (print_mismatch E (record_mode L)) (enumerate 1 ms)))
     \<and> (\<forall>idx i nl g p grec prec.
           write_mismatch E True (idx, i, nl, g, p, grec, prec)
             = take 4 (write_mismatch E False (idx, i, nl, g, p, grec, prec))
               @ write_records E ''Gold'' grec @ write_records E ''Predicted'' prec
               @ [newline @ dash80 @ newline @ newline]
         \<and> length (write_mismatch E False (idx, i, nl, g, p, grec, prec)) = 5
         \<and> print_mismatch E True (idx, i, nl, g, p, grec, prec)
             = take 6 (print_mismatch E False (idx, i, nl, g, p, grec, prec))
               @ print_records E ''Gold'' grec @ print_records E ''Predicted'' prec
               @ [newline @ dash80 @ newline]
         \<and> length (print_mismatch E False (idx, i, nl, g, p, grec, prec)) = 7)
     \<and> (\<forall>label rows. rows \<noteq> [] \<longrightarrow>
           write_records E label (Some rows)
             = (newline @ label @ '' Records ('' @ str_nat (length rows) @ '' rows):'' @ newline)
               # map (\<lambda>row. ''  '' @ repr_row E row @ newline) (take 10 rows)
               @ (if 10 < length rows
                  then [''  ... ('' @ str_nat (length rows - 10) @ '' more rows)'' @ newline]
                  else [])
         \<and> print_records E label (Some rows)
             = (newline @ label @ '' Records ('' @ str_nat (length rows) @ '' rows):'')
               # map (\<lambda>row. ''  '' @ repr_row E row) (take 5 rows)
               @ (if 5 < length rows
                  then [''  ... ('' @ str_nat (length rows - 5) @ '' more rows)'']
                  else []))
     \<and> (\<forall>label r. length (write_records E label r) \<le> 12
                   \<and> length (print_records E label r) \<le> 7)"
proof -
  from find_mismatches_ok [OF v] obtain c1 ms where fm: "find_mismatches L = (c1, Inr ms)"
    by blast
  note run = main_ok [OF ld v fm ne]
  have r: "raised (main E a) = None" by (simp add: run)
  have w: "\<exists>others. written (main E a)
           = (mismatches_path a,
              mismatch_header E a L ms
              @ concat (map (write_mismatch E (record_mode L)) (enumerate 1 ms))) # others"
    by (simp add: run report_files_def mismatch_file_def)
  have p: "\<exists>before. console (main E a)
           = before @ concat (map (print_mismatch E (record_mode L)) (enumerate 1 ms))"
  proof -
    from report_console_ends [of E a L ms "find_error_queries L"] obtain pre where
      "report_console E a L ms (find_error_queries L)
         = pre @ concat (map (print_mismatch E (record_mode L)) (enumerate 1 ms))"
      by blast
    then have "console (main E a)
       = (c @ c1 @ fst (print_summary E L ms (find_error_queries L)) @ pre)
         @ concat (map (print_mismatch E (record_mode L)) (enumerate 1 ms))"
      by (simp add: run)
    then show ?thesis by (rule exI)
  qed
  have e: "\<forall>idx i nl g p grec prec.
           write_mismatch E True (idx, i, nl, g, p, grec, prec)
             = take 4 (write_mismatch E False (idx, i, nl, g, p, grec, prec))
               @ write_records E ''Gold'' grec @ write_records E ''Predicted'' prec
               @ [newline @ dash80 @ newline @ newline]
         \<and> length (write_mismatch E False (idx, i, nl, g, p, grec, prec)) = 5
         \<and> print_mismatch E True (idx, i, nl, g, p, grec, prec)
             = take 6 (print_mismatch E False (idx, i, nl, g, p, grec, prec))
               @ print_records E ''Gold'' grec @ print_records E ''Predicted'' prec
               @ [newline @ dash80 @ newline]
         \<and> length (print_mismatch E False (idx, i, nl, g, p, grec, prec)) = 7"
    by (simp add: write_mismatch_def print_mismatch_def)
  have e2: "\<forall>label rows. rows \<noteq> [] \<longrightarrow>
           write_records E label (Some rows)
             = (newline @ label @ '' Records ('' @ str_nat (length rows) @ '' rows):'' @ newline)
               # map (\<lambda>row. ''  '' @ repr_row E row @ newline) (take 10 rows)
               @ (if 10 < length rows
                  then [''  ... ('' @ str_nat (length rows - 10) @ '' more rows)'' @ newline]
                  else [])
         \<and> print_records E label (Some rows)
             = (newline @ label @ '' Records ('' @ str_nat (length rows) @ '' rows):'')
               # map (\<lambda>row. ''  '' @ repr_row E row) (take 5 rows)
               @ (if 5 < length rows
                  then [''  ... ('' @ str_nat (length rows - 5) @ '' more rows)'']
                  else [])"
    by (intro allI impI conjI) (erule write_records_rows, erule print_records_rows)
  have e3: "\<forall>label r. length (write_records E label r) \<le> 12
                   \<and> length (print_records E label r) \<le> 7"
    by (intro allI) (rule records_length_bounds)
  show ?thesis
    by (rule exI [of _ c1], rule exI [of _ ms], intro conjI) (rule fm r w p e e2 e3)+
qed

lemma demo_records_load:
  "\<exists>c. load_inputs demo_records_env demo_args = Load_ok c demo_records_inputs"
  by (simp add: demo_load_defs demo_records_env_def demo_records_inputs_def
      strip_def isspace_def newline_def)

lemma str_nat_2: "str_nat 2 = ''2''"
  by code_simp

lemma str_nat_7: "str_nat 7 = ''7''"
  by code_simp

theorem previews_bounded_witness:
  "raised (main demo_records_env demo_args) = None
   \<and> length demo_rows12 = 12
   \<and> length (write_records demo_records_env ''Gold'' (Some demo_rows12)) = 12
   \<and> last (write_records demo_records_env ''Gold'' (Some demo_rows12))
       = ''  ... (2 more rows)'' @ newline
   \<and> length (print_records demo_records_env ''Gold'' (Some demo_rows12)) = 7
   \<and> last (print_records demo_records_env ''Gold'' (Some demo_rows12))
       = ''  ... (7 more rows)''"
proof -
  from demo_records_load obtain c where
    l: "load_inputs demo_records_env demo_args = Load_ok c demo_records_inputs" by blast
  have v: "verify_lengths demo_records_inputs = None"
    by (simp add: verify_lengths_def demo_records_inputs_def truthy_opt_def truthy_def)
  have ne: "nl_queries demo_records_inputs \<noteq> []"
    by (simp add: demo_records_inputs_def)
  have n: "demo_rows12 \<noteq> []" "length demo_rows12 = 12"
    by (simp_all add: demo_rows12_def)
  note t = previews_bounded [OF l v ne]
  from t have r: "raised (main demo_records_env demo_args) = None"
    by (elim exE conjE) assumption
  from t have e: "\<forall>label rows. rows \<noteq> [] \<longrightarrow>
           write_records demo_records_env label (Some rows)
             = (newline @ label @ '' Records ('' @ str_nat (length rows) @ '' rows):'' @ newline)
               # map (\<lambda>row. ''  '' @ repr_row demo_records_env row @ newline) (take 10 rows)
               @ (if 10 < length rows
                  then [''  ... ('' @ str_nat (length rows - 10) @ '' more rows)'' @ newline]
                  else [])
         \<and> print_records demo_records_env label (Some rows)
             = (newline @ label @ '' Records ('' @ str_nat (length rows) @ '' rows):'')
               # map (\<lambda>row. ''  '' @ repr_row demo_records_env row) (take 5 rows)
               @ (if 5 < length rows
                  then [''  ... ('' @ str_nat (length rows - 5) @ '' more rows)'']
                  else [])"
    by (elim exE conjE) assumption
  from e n(1) have
    w: "write_records demo_records_env ''Gold'' (Some demo_rows12)
         = (newline @ ''Gold'' @ '' Records ('' @ str_nat (length demo_rows12) @ '' rows):'' @ newline)
           # map (\<lambda>row. ''  '' @ repr_row demo_records_env row @ newline) (take 10 demo_rows12)
           @ (if 10 < length demo_rows12
              then [''  ... ('' @ str_nat (length demo_rows12 - 10) @ '' more rows)'' @ newline]
              else [])"
    and p: "print_records demo_records_env ''Gold'' (Some demo_rows12)
         = (newline @ ''Gold'' @ '' Records ('' @ str_nat (length demo_rows12) @ '' rows):'')
           # map (\<lambda>row. ''  '' @ repr_row demo_records_env row) (take 5 demo_rows12)
           @ (if 5 < length demo_rows12
              then [''  ... ('' @ str_nat (length demo_rows12 - 5) @ '' more rows)'']
              else [])"
    by blast+
  have "length (write_records demo_records_env ''Gold'' (Some demo_rows12)) = 12"
    "last (write_records demo_records_env ''Gold'' (Some demo_rows12))
       = ''  ... (2 more rows)'' @ newline"
    unfolding w by (simp_all add: str_nat_2 n(2))
  moreover have "length (print_records demo_records_env ''Gold'' (Some demo_rows12)) = 7"
    "last (print_records demo_records_env ''Gold'' (Some demo_rows12)) = ''  ... (7 more rows)''"
    unfolding p by (simp_all add: str_nat_7 n(2))
  ultimately show ?thesis using r n(2) by (intro conjI)
qed


section \<open>An empty development set\<close>

text \<open>
  Outside the amended claim C5: with no question at all the length checks pass, the
  comparison falls back to the SQL strings, and the division of line 159 raises after
  the first two lines of the summary.
\<close>

lemma str_nat_0: "str_nat 0 = ''0''"
  by code_simp

lemma empty_dev_set_raises:
  "raised (main demo_empty_env demo_args) = Some ZeroDivisionError
   \<and> written (main demo_empty_env demo_args) = []
   \<and> last (console (main demo_empty_env demo_args)) = ''Queries with SQL mismatches: 0''"
  by (simp add: main_def demo_load_defs demo_empty_env_def verify_lengths_def truthy_opt_def
      find_mismatches_def record_mode_def sql_mismatches_def print_summary_def
      find_error_queries_def str_nat_0)


section \<open>The error rate in the two scripts\<close>

lemma error_queries_count:
  assumes v: "verify_lengths L = None" and m: "error_msgs L = Some ems" "ems \<noteq> []"
  shows "length (find_error_queries L) = card {i. i < length ems \<and> strip (ems ! i) \<noteq> []}"
proof -
  note es = error_queries_indices [OF v m]
  note len = verify_lengths_None(5) [OF v m]
  have "length (find_error_queries L) = length (map fst (find_error_queries L))" by simp
  also have "\<dots> = card (set (map fst (find_error_queries L)))"
    unfolding es by (rule distinct_card [symmetric]) simp
  also have "set (map fst (find_error_queries L)) = {i. i < length ems \<and> strip (ems ! i) \<noteq> []}"
    unfolding es by (auto simp: has_sql_error_iff len)
  finally show ?thesis .
qed

lemma print_summary_with_errors:
  assumes "nl_queries L \<noteq> []" and "truthy_opt (error_msgs L)"
  shows "print_summary E L ms errs
     = (butlast (butlast (fst (print_summary E L ms errs)))
        @ [''Queries with SQL errors: '' @ str_nat (length errs),
           ''SQL error rate: ''
             @ fmt_pct E (int (length errs)) (int (length (nl_queries L))) @ ''%''],
        None)"
  using assms by (simp add: print_summary_def Let_def butlast_append)

lemma print_summary_without_errors:
  assumes "nl_queries L \<noteq> []" and "\<not> truthy_opt (error_msgs L)"
  shows "print_summary E L ms errs
     = ([''Total queries: '' @ str_nat (length (nl_queries L)),
         (if record_mode L
          then ''Queries with record mismatches (different results): '' @ str_nat (length ms)
          else ''Queries with SQL mismatches: '' @ str_nat (length ms)),
         (if record_mode L
          then ''Record match rate: ''
                 @ fmt_pct E (int (length (nl_queries L)) - int (length ms))
                     (int (length (nl_queries L))) @ ''%''
          else ''SQL match rate: ''
                 @ fmt_pct E (int (length (nl_queries L)) - int (length ms))
                     (int (length (nl_queries L))) @ ''%'')],
        None)"
  using assms by (simp add: print_summary_def Let_def)

text \<open>
  Claim C4 (as amended). The error rate that evaluate\_test2.py reports for an
  experiment is the number of indices whose error message is not the empty string,
  divided by the length of the whole list of error messages, and it is 0 for an empty
  list. The SQL error rate that find\_mismatches.py prints is formed from the number of
  indices whose message is not blank after stripping and the length of the same list,
  and it is printed only when the list of error messages is loaded and not empty:
  otherwise the summary ends with the match rate.
\<close>

theorem error_rates_of_both_scripts:
  "error_rate msgs =
     (if msgs = [] then 0
      else of_nat (card {i. i < length msgs \<and> msgs ! i \<noteq> ''''}) / of_nat (length msgs))
   \<and> (verify_lengths L = None \<and> error_msgs L = Some ems \<and> ems \<noteq> [] \<longrightarrow>
         length ems = length (nl_queries L)
       \<and> length (find_error_queries L)
           = card {i. i < length ems \<and> strip (ems ! i) \<noteq> []}
       \<and> snd (print_summary E L ms (find_error_queries L)) = None
       \<and> last (fst (print_summary E L ms (find_error_queries L)))
           = ''SQL error rate: ''
               @ fmt_pct E (int (card {i. i < length ems \<and> strip (ems ! i) \<noteq> []}))
                   (int (length ems)) @ ''%'')
   \<and> (nl_queries L \<noteq> [] \<and> \<not> truthy_opt (error_msgs L) \<longrightarrow>
         print_summary E L ms errs
           = ([''Total queries: '' @ str_nat (length (nl_queries L)),
               (if record_mode L
                then ''Queries with record mismatches (different results): ''
                       @ str_nat (length ms)
                else ''Queries with SQL mismatches: '' @ str_nat (length ms)),
               (if record_mode L
                then ''Record match rate: ''
                       @ fmt_pct E (int (length (nl_queries L)) - int (length ms))
                           (int (length (nl_queries L))) @ ''%''
                else ''SQL match rate: ''
                       @ fmt_pct E (int (length (nl_queries L)) - int (length ms))
                           (int (length (nl_queries L))) @ ''%'')],
              None))"
proof (intro conjI impI)
  show "error_rate msgs =
     (if msgs = [] then 0
      else of_nat (card {i. i < length msgs \<and> msgs ! i \<noteq> ''''}) / of_nat (length msgs))"
    by (rule error_rate_closed_form)
next
  assume a: "verify_lengths L = None \<and> error_msgs L = Some ems \<and> ems \<noteq> []"
  then have v: "verify_lengths L = None" and m: "error_msgs L = Some ems" "ems \<noteq> []"
    by simp_all
  note len = verify_lengths_None(5) [OF v m]
  from len m(2) have ne: "nl_queries L \<noteq> []" by auto
  have t: "truthy_opt (error_msgs L)" by (simp add: truthy_opt_def truthy_def m)
  note ps = print_summary_with_errors [OF ne t, of E ms "find_error_queries L"]
  note cnt = error_queries_count [OF v m]
  show "length ems = length (nl_queries L)" by (rule len)
  show "length (find_error_queries L) = card {i. i < length ems \<and> strip (ems ! i) \<noteq> []}"
    by (rule cnt)
  show "snd (print_summary E L ms (find_error_queries L)) = None"
    by (subst ps) simp
  have "last (fst (print_summary E L ms (find_error_queries L)))
           = ''SQL error rate: ''
               @ fmt_pct E (int (length (find_error_queries L))) (int (length (nl_queries L)))
               @ ''%''"
    by (subst ps) simp
  then show "last (fst (print_summary E L ms (find_error_queries L)))
           = ''SQL error rate: ''
               @ fmt_pct E (int (card {i. i < length ems \<and> strip (ems ! i) \<noteq> []}))
                   (int (length ems)) @ ''%''"
    by (simp only: cnt len)
next
  assume "nl_queries L \<noteq> [] \<and> \<not> truthy_opt (error_msgs L)"
  then show "print_summary E L ms errs
           = ([''Total queries: '' @ str_nat (length (nl_queries L)),
               (if record_mode L
                then ''Queries with record mismatches (different results): ''
                       @ str_nat (length ms)
                else ''Queries with SQL mismatches: '' @ str_nat (length ms)),
               (if record_mode L
                then ''Record match rate: ''
                       @ fmt_pct E (int (length (nl_queries L)) - int (length ms))
                           (int (length (nl_queries L))) @ ''%''
                else ''SQL match rate: ''
                       @ fmt_pct E (int (length (nl_queries L)) - int (length ms))
                           (int (length (nl_queries L))) @ ''%'')],
              None)"
    using print_summary_without_errors by blast
qed

theorem error_rates_of_both_scripts_witness:
  "verify_lengths demo_inputs = None
   \<and> length (find_error_queries demo_inputs)
       = card {i. i < length [[], [], ''no such column: nope'', ''  '']
                  \<and> strip ([[], [], ''no such column: nope'', ''  ''] ! i) \<noteq> []}
   \<and> last (fst (print_summary demo_env demo_inputs [] (find_error_queries demo_inputs)))
       = ''SQL error rate: ''
           @ fmt_pct demo_env
               (int (card {i. i < length [[], [], ''no such column: nope'', ''  '']
                              \<and> strip ([[], [], ''no such column: nope'', ''  ''] ! i) \<noteq> []}))
               (int (length [[], [], ''no such column: nope'', ''  ''])) @ ''%''
   \<and> length (fst (print_summary demo_env (demo_inputs\<lparr>error_msgs := None\<rparr>) [] [])) = 3"
proof -
  let ?ems = "[[], [], ''no such column: nope'', ''  '']"
  have h: "verify_lengths demo_inputs = None \<and> error_msgs demo_inputs = Some ?ems \<and> ?ems \<noteq> []"
    by (simp add: demo_inputs_verified) (simp add: demo_inputs_def)
  note b = error_rates_of_both_scripts
    [where L = demo_inputs and ems = ?ems and E = demo_env and ms = "[]",
     THEN conjunct2, THEN conjunct1, THEN mp, OF h]
  have h2: "nl_queries (demo_inputs\<lparr>error_msgs := None\<rparr>) \<noteq> []
            \<and> \<not> truthy_opt (error_msgs (demo_inputs\<lparr>error_msgs := None\<rparr>))"
    by (simp add: demo_inputs_def truthy_opt_def)
  note c = error_rates_of_both_scripts
    [where L = "demo_inputs\<lparr>error_msgs := None\<rparr>" and E = demo_env and ms = "[]"
       and errs = "[]",
     THEN conjunct2, THEN conjunct2, THEN mp, OF h2]
  have l3: "length (fst (print_summary demo_env (demo_inputs\<lparr>error_msgs := None\<rparr>) [] [])) = 3"
    by (subst c) simp
  note b2 = b [THEN conjunct2, THEN conjunct1]
  note b4 = b [THEN conjunct2, THEN conjunct2, THEN conjunct2]
  show ?thesis
    by (intro conjI) (rule demo_inputs_verified b2 b4 l3)+
qed

text \<open>
  The claim as first stated fails for the rate of find\_mismatches.py: of four messages
  two are not empty, one of them blank, and the rate is formed from 1 of 4.
\<close>

theorem error_rate_counterexample:
  "find_mismatches demo_inputs
     = ([], Inr [(1, ''q1'', ''SELECT b'', ''SELECT x'', Some [[3]], Some [[9]]),
                 (3, ''q3'', ''SELECT d'', ''SELECT d d'', Some [[5]], Some [[6]])])
   \<and> length (nl_queries demo_inputs) = 4
   \<and> length (find_error_queries demo_inputs) = 1
   \<and> last (fst (print_summary demo_env demo_inputs
                   [(1, ''q1'', ''SELECT b'', ''SELECT x'', Some [[3]], Some [[9]]),
                    (3, ''q3'', ''SELECT d'', ''SELECT d d'', Some [[5]], Some [[6]])]
                   (find_error_queries demo_inputs)))
       = ''SQL error rate: '' @ fmt_pct demo_env 1 4 @ ''%''
   \<and> error_msgs demo_inputs = Some [[], [], ''no such column: nope'', ''  '']
   \<and> error_rate [[], [], ''no such column: nope'', ''  ''] = 1 / 2"
proof -
  have f: "find_mismatches demo_inputs
     = ([], Inr [(1, ''q1'', ''SELECT b'', ''SELECT x'', Some [[3]], Some [[9]]),
                 (3, ''q3'', ''SELECT d'', ''SELECT d d'', Some [[5]], Some [[6]])])"
    by (simp add: find_mismatches_def demo_inputs_def record_mode_def truthy_opt_def truthy_def
      enumerate_eq_zip skip_sql_error_def has_sql_error_def strip_def isspace_def
      records_differ_def rec_set_def tuple_def upt_rec insert_commute)
  have e: "length (find_error_queries demo_inputs) = 1"
    using demo_error_queries [THEN arg_cong, of length] by simp
  have n: "length (nl_queries demo_inputs) = 4"
    and m: "error_msgs demo_inputs = Some [[], [], ''no such column: nope'', ''  '']"
    by (simp_all add: demo_inputs_def)
  have ne: "nl_queries demo_inputs \<noteq> []" and t: "truthy_opt (error_msgs demo_inputs)"
    by (simp_all add: demo_inputs_def truthy_opt_def truthy_def)
  have p: "last (fst (print_summary demo_env demo_inputs
                   [(1, ''q1'', ''SELECT b'', ''SELECT x'', Some [[3]], Some [[9]]),
                    (3, ''q3'', ''SELECT d'', ''SELECT d d'', Some [[5]], Some [[6]])]
                   (find_error_queries demo_inputs)))
       = ''SQL error rate: '' @ fmt_pct demo_env 1 4 @ ''%''"
    by (subst print_summary_with_errors [OF ne t]) (simp add: e n)
  have r: "error_rate [[], [], ''no such column: nope'', ''  ''] = 1 / 2"
    by (simp add: error_rate_def truthy_def)
  show ?thesis
    by (intro conjI) (rule f n e p m r)+
qed


end
